theory Spec2Isabelle
  imports
    Complex_Main
    "HOL-Library.Char_ord"
    "HOL-Library.List_Lexorder"
    "HOL-Library.Product_Lexorder"
    "HOL-Library.AList"
begin

section \<open>Health monitoring: data model\<close>

text \<open>
  The embedding follows \<^verbatim>\<open>backend-ai/health_monitoring\<close>: \<^verbatim>\<open>models.py\<close>,
  \<^verbatim>\<open>config.py\<close>, \<^verbatim>\<open>service_manager.py\<close>, \<^verbatim>\<open>dependency_validator.py\<close> and
  \<^verbatim>\<open>health_monitor.py\<close>.

  Python values are modelled as follows. A \<^verbatim>\<open>str\<close> is a \<open>string\<close>, ordered
  lexicographically by character code as Python orders strings. A \<^verbatim>\<open>dict\<close> is an
  association list in insertion order; item assignment is \<open>AList.update\<close>, which
  overwrites in place or appends, and lookup is \<open>map_of\<close>. A \<^verbatim>\<open>datetime\<close> is the
  number of microseconds since the epoch, a \<^verbatim>\<open>timedelta\<close> a number of microseconds.
  A \<^verbatim>\<open>float\<close> that is only carried around is a \<open>real\<close>. An exception is a value
  of type \<open>error\<close>; a function that can raise returns \<open>error + 'a\<close>, with \<open>Inl\<close>
  for the exception. Only subclasses of \<^verbatim>\<open>Exception\<close> are modelled, cancellation of
  a coroutine is not.

  Dataclass fields carry a prefix naming their class, since several classes share
  field names (\<^verbatim>\<open>name\<close>, \<^verbatim>\<open>port\<close>, \<^verbatim>\<open>success\<close>, \<^verbatim>\<open>message\<close>, ...).
\<close>

datatype error =
    KeyError string
  | ValueError string
  | TypeError string
  | OtherException string

text \<open>
  \<open>KeyError k\<close> is the exception of a failed subscript \<^verbatim>\<open>d[k]\<close>, whose only argument
  is the key \<open>k\<close>, a \<^verbatim>\<open>str\<close>. \<open>ValueError m\<close> and \<open>TypeError m\<close> carry their message
  as their only argument. \<open>OtherException m\<close> is an exception of any other class or
  shape, known by the text \<open>m\<close> that \<^verbatim>\<open>str\<close> gives for it.

  \<^verbatim>\<open>repr\<close> of a \<^verbatim>\<open>str\<close>, for the code points below 256 that a \<open>char\<close> holds. The
  text is quoted by apostrophes, or by double quotes when it holds an apostrophe
  and no double quote. The quote in use and the backslash are escaped by a
  backslash; tab, line feed and carriage return are written \<^verbatim>\<open>\t\<close>, \<^verbatim>\<open>\n\<close>, \<^verbatim>\<open>\r\<close>;
  every other code point that is not printable (below 32, 127 to 160, and 173) is
  written \<^verbatim>\<open>\x\<close> and two lowercase hexadecimal digits.
\<close>

definition hex_digit :: "nat \<Rightarrow> char" where
  "hex_digit d = (if d < 10 then char_of (48 + d) else char_of (87 + d))"

definition py_repr_char :: "char \<Rightarrow> char \<Rightarrow> string" where
  "py_repr_char quote c =
     (if c = quote \<or> c = CHR 0x5C then [CHR 0x5C, c]
      else if c = CHR 0x09 then [CHR 0x5C, CHR ''t'']
      else if c = CHR 0x0A then [CHR 0x5C, CHR ''n'']
      else if c = CHR 0x0D then [CHR 0x5C, CHR ''r'']
      else if (of_char c :: nat) < 32 \<or> (127 \<le> (of_char c :: nat) \<and> (of_char c :: nat) \<le> 160)
              \<or> (of_char c :: nat) = 173
      then [CHR 0x5C, CHR ''x'', hex_digit (of_char c div 16), hex_digit (of_char c mod 16)]
      else [c])"

definition py_repr :: "string \<Rightarrow> string" where
  "py_repr s =
     (let quote = (if CHR 0x27 \<in> set s \<and> CHR 0x22 \<notin> set s then CHR 0x22 else CHR 0x27)
      in [quote] @ concat (map (py_repr_char quote) s) @ [quote])"

text \<open>
  \<^verbatim>\<open>str(e)\<close>: the message of the exception; the text of a \<^verbatim>\<open>KeyError\<close> with one
  argument is the \<^verbatim>\<open>repr\<close> of that argument.
\<close>

fun str_of_error :: "error \<Rightarrow> string" where
  "str_of_error (KeyError k) = py_repr k"
| "str_of_error (ValueError m) = m"
| "str_of_error (TypeError m) = m"
| "str_of_error (OtherException m) = m"

datatype ServiceStatus = RUNNING | STOPPED | ERROR | STARTING | STOPPING

datatype OverallStatus = HEALTHY | DEGRADED | UNHEALTHY

datatype IssueSeverity = CRITICAL | WARNING | INFO

record ServiceConfig =
  cfg_name :: string
  cfg_port :: int
  cfg_health_endpoint :: string
  cfg_startup_command :: string
  cfg_startup_args :: "string list"
  cfg_working_directory :: string
  cfg_environment_vars :: "(string \<times> string) list"
  cfg_dependencies :: "string list"
  cfg_startup_timeout :: int
  cfg_health_check_timeout :: int

text \<open>\<^verbatim>\<open>HealthMonitorConfig.services\<close>: the table of services, a dict from name to configuration.\<close>

type_synonym services = "(string \<times> ServiceConfig) list"

section \<open>config.py\<close>

text \<open>
  \<^verbatim>\<open>_get_default_services\<close>. The two directories come from \<^verbatim>\<open>os.path\<close> and are
  parameters here.
\<close>

definition get_default_services :: "string \<Rightarrow> string \<Rightarrow> services" where
  "get_default_services base_dir frontend_dir =
     [(''backend'',
        \<lparr>cfg_name = ''backend'', cfg_port = 8000, cfg_health_endpoint = ''/health'',
         cfg_startup_command = ''uvicorn'',
         cfg_startup_args = [''main:app'', ''--host'', ''0.0.0.0'', ''--port'', ''8000'', ''--reload''],
         cfg_working_directory = base_dir, cfg_environment_vars = [],
         cfg_dependencies = [], cfg_startup_timeout = 45, cfg_health_check_timeout = 10\<rparr>),
      (''frontend'',
        \<lparr>cfg_name = ''frontend'', cfg_port = 5173, cfg_health_endpoint = ''/'',
         cfg_startup_command = ''npm'', cfg_startup_args = [''run'', ''dev''],
         cfg_working_directory = frontend_dir, cfg_environment_vars = [(''PORT'', ''5173'')],
         cfg_dependencies = [''backend''], cfg_startup_timeout = 60,
         cfg_health_check_timeout = 10\<rparr>)]"

definition get_service_config :: "services \<Rightarrow> string \<Rightarrow> error + ServiceConfig" where
  "get_service_config sv service_name =
     (case map_of sv service_name of
        None \<Rightarrow> Inl (ValueError (''Unknown service: '' @ service_name))
      | Some c \<Rightarrow> Inr c)"

definition get_all_services :: "services \<Rightarrow> string list" where
  "get_all_services sv = map fst sv"

text \<open>
  \<^verbatim>\<open>get_startup_order\<close>. The set \<^verbatim>\<open>remaining\<close> is a list without duplicates whose
  order stands for the order in which Python happens to iterate the set. The inner
  \<^verbatim>\<open>for\<close> loop is \<open>collect_ready\<close>; the subscript \<^verbatim>\<open>self.services[service]\<close> raises
  \<^verbatim>\<open>KeyError\<close> on a missing key.
\<close>

fun collect_ready :: "services \<Rightarrow> string list \<Rightarrow> string list \<Rightarrow> error + string list" where
  "collect_ready sv ordered [] = Inr []"
| "collect_ready sv ordered (service # rest) =
     (case map_of sv service of
        None \<Rightarrow> Inl (KeyError service)
      | Some c \<Rightarrow>
          (case collect_ready sv ordered rest of
             Inl e \<Rightarrow> Inl e
           | Inr ready \<Rightarrow>
               if set (cfg_dependencies c) \<subseteq> set ordered then Inr (service # ready)
               else Inr ready))"

lemma collect_ready_subset:
  "collect_ready sv ordered remaining = Inr ready \<Longrightarrow> set ready \<subseteq> set remaining"
  by (induction remaining arbitrary: ready) (auto split: option.splits sum.splits if_splits)

text \<open>One round of the \<^verbatim>\<open>while\<close> loop chooses the services appended in that round.\<close>

definition select_ready :: "string list \<Rightarrow> string list \<Rightarrow> string list" where
  "select_ready remaining ready0 = sort (if ready0 = [] then remaining else ready0)"

lemma select_ready_set:
  "set ready0 \<subseteq> set remaining \<Longrightarrow> set (select_ready remaining ready0) \<subseteq> set remaining"
  by (auto simp: select_ready_def)

lemma select_ready_nonempty:
  "remaining \<noteq> [] \<Longrightarrow> select_ready remaining ready0 \<noteq> []"
  by (cases "ready0 = []") (auto simp: select_ready_def simp flip: set_empty)

function startup_loop :: "services \<Rightarrow> string list \<Rightarrow> string list \<Rightarrow> error + string list" where
  "startup_loop sv ordered remaining =
     (if remaining = [] then Inr ordered
      else
        (case collect_ready sv ordered remaining of
           Inl e \<Rightarrow> Inl e
         | Inr ready0 \<Rightarrow>
             (let ready = select_ready remaining ready0
              in startup_loop sv (ordered @ ready)
                   (filter (\<lambda>s. s \<notin> set ready) remaining))))"
  by pat_completeness auto
termination
proof (relation "measure (\<lambda>(sv, ordered, remaining). length remaining)", goal_cases)
  case 1
  show ?case by simp
next
  case (2 sv ordered remaining ready0 ready)
  have ne: "ready \<noteq> []"
    using 2 by (simp add: select_ready_nonempty)
  have sub: "set ready \<subseteq> set remaining"
    using 2 by (simp add: select_ready_set collect_ready_subset)
  from ne obtain x where x: "x \<in> set ready"
    by (cases ready) auto
  with sub have "x \<in> set remaining" by blast
  with x have "length (filter (\<lambda>s. s \<notin> set ready) remaining) < length remaining"
    by (intro length_filter_less[of x]) auto
  then show ?case by simp
qed

declare startup_loop.simps [simp del]

definition get_startup_order :: "services \<Rightarrow> error + string list" where
  "get_startup_order sv = startup_loop sv [] (remdups (map fst sv))"

section \<open>Strings and times\<close>

text \<open>\<^verbatim>\<open>str(n)\<close> for an integer, as the f-strings format a port number.\<close>

definition digit_char :: "nat \<Rightarrow> char" where
  "digit_char d = char_of (48 + d)"

function str_nat :: "nat \<Rightarrow> string" where
  "str_nat n = (if n < 10 then [digit_char n] else str_nat (n div 10) @ [digit_char (n mod 10)])"
  by pat_completeness auto
termination
  by (relation "measure (\<lambda>n. n)") auto

declare str_nat.simps [simp del]

definition str_int :: "int \<Rightarrow> string" where
  "str_int i = (if i < 0 then ''-'' @ str_nat (nat (- i)) else str_nat (nat i))"

text \<open>\<^verbatim>\<open>sep.join(xs)\<close>.\<close>

fun join :: "string \<Rightarrow> string list \<Rightarrow> string" where
  "join sep [] = []"
| "join sep [x] = x"
| "join sep (x # y # ys) = x @ sep @ join sep (y # ys)"

text \<open>
  A \<^verbatim>\<open>timedelta\<close> of \<open>d\<close> microseconds is normalised by Python into days, seconds
  (from 0 to 86399) and microseconds. Its attribute \<^verbatim>\<open>.seconds\<close> is the seconds
  component alone; \<^verbatim>\<open>.total_seconds()\<close> is the whole duration.
\<close>

definition timedelta_seconds :: "int \<Rightarrow> int" where
  "timedelta_seconds d = (d div 1000000) mod 86400"

definition total_seconds :: "int \<Rightarrow> real" where
  "total_seconds d = real_of_int d / 1000000"

section \<open>models.py\<close>

record ServiceHealth =
  sh_name :: string
  sh_status :: ServiceStatus
  sh_port :: int
  sh_url :: string
  sh_response_time :: "real option"
  sh_last_check :: "int option"
  sh_error_message :: "string option"
  sh_process_id :: "int option"
  sh_resource_usage :: "(string \<times> real) list option"
  sh_uptime :: "real option"

record Issue =
  iss_severity :: IssueSeverity
  iss_component :: string
  iss_message :: string
  iss_suggested_action :: string
  iss_timestamp :: int

record DependencyStatus =
  python_deps_ok :: bool
  node_deps_ok :: bool
  api_keys_configured :: bool
  missing_python_deps :: "string list"
  missing_node_deps :: "string list"
  missing_api_keys :: "string list"

record HealthStatus =
  hs_overall_status :: OverallStatus
  hs_services :: "(string \<times> ServiceHealth) list"
  hs_dependencies :: DependencyStatus
  hs_last_check :: int
  hs_issues :: "Issue list"

record StartupResult =
  sr_success :: bool
  sr_message :: string
  sr_failed_services :: "string list"
  sr_started_services :: "string list"

record ValidationResult =
  vr_success :: bool
  vr_message :: string
  vr_missing_dependencies :: "string list"
  vr_installation_commands :: "string list"

record SystemStatus =
  sys_health :: HealthStatus
  sys_uptime :: "real option"
  sys_resource_usage :: "(string \<times> real) list option"
  sys_active_connections :: int

text \<open>
  The constructor that \<^verbatim>\<open>@dataclass\<close> generates for \<^verbatim>\<open>DependencyStatus\<close>, called
  with keyword arguments. Every field has a default. A keyword that is not one of
  the six fields raises \<^verbatim>\<open>TypeError\<close>. Python does not check the type of a value;
  the record is typed, so a value of the other type cannot be stored and is refused
  here as well (no call in the sources passes one).
\<close>

datatype pyval = PyBool bool | PyStrList "string list"

definition DependencyStatus_default :: DependencyStatus where
  "DependencyStatus_default =
     \<lparr>python_deps_ok = False, node_deps_ok = False, api_keys_configured = False,
      missing_python_deps = [], missing_node_deps = [], missing_api_keys = []\<rparr>"

definition unexpected_keyword :: "string \<Rightarrow> error" where
  "unexpected_keyword k =
     TypeError (''DependencyStatus.__init__() got an unexpected keyword argument '' @
       [CHR 0x27] @ k @ [CHR 0x27])"

fun DependencyStatus_set :: "string \<Rightarrow> pyval \<Rightarrow> DependencyStatus \<Rightarrow> error + DependencyStatus" where
  "DependencyStatus_set k (PyBool b) d =
     (if k = ''python_deps_ok'' then Inr (d\<lparr>python_deps_ok := b\<rparr>)
      else if k = ''node_deps_ok'' then Inr (d\<lparr>node_deps_ok := b\<rparr>)
      else if k = ''api_keys_configured'' then Inr (d\<lparr>api_keys_configured := b\<rparr>)
      else Inl (unexpected_keyword k))"
| "DependencyStatus_set k (PyStrList xs) d =
     (if k = ''missing_python_deps'' then Inr (d\<lparr>missing_python_deps := xs\<rparr>)
      else if k = ''missing_node_deps'' then Inr (d\<lparr>missing_node_deps := xs\<rparr>)
      else if k = ''missing_api_keys'' then Inr (d\<lparr>missing_api_keys := xs\<rparr>)
      else Inl (unexpected_keyword k))"

fun DependencyStatus_kwargs :: "(string \<times> pyval) list \<Rightarrow> DependencyStatus \<Rightarrow> error + DependencyStatus" where
  "DependencyStatus_kwargs [] d = Inr d"
| "DependencyStatus_kwargs ((k, v) # kws) d =
     (case DependencyStatus_set k v d of
        Inl e \<Rightarrow> Inl e
      | Inr d' \<Rightarrow> DependencyStatus_kwargs kws d')"

definition DependencyStatus_init :: "(string \<times> pyval) list \<Rightarrow> error + DependencyStatus" where
  "DependencyStatus_init kws = DependencyStatus_kwargs kws DependencyStatus_default"

section \<open>service_manager.py\<close>

text \<open>
  The four controller classes differ in \<^verbatim>\<open>is_running\<close> and in the readiness probe.
  A controller owns the handle of the process it spawned (kept here as the process
  id) and its start time. What the operating system, the network and the managed
  processes answer is not computed by the program: it is an observation, passed in
  to a health check and read from a world by the methods that start and stop.
\<close>

datatype controller_class =
    ServiceController_class
  | BackendServiceController_class
  | FrontendServiceController_class
  | DatabaseController_class

record ServiceController =
  ctl_class :: controller_class
  ctl_config :: ServiceConfig
  ctl_process :: "int option"
  ctl_start_time :: "int option"
  ctl_retry_count :: int
  ctl_max_retries :: int

definition new_controller :: "controller_class \<Rightarrow> ServiceConfig \<Rightarrow> ServiceController" where
  "new_controller cls config =
     \<lparr>ctl_class = cls, ctl_config = config, ctl_process = None, ctl_start_time = None,
      ctl_retry_count = 0, ctl_max_retries = 3\<rparr>"

text \<open>
  \<^verbatim>\<open>is_running\<close>: \<open>poll\<close> is what \<^verbatim>\<open>self.process.poll()\<close> answers, the exit code or
  \<^verbatim>\<open>None\<close> for a live process, or an exception, which the bare \<^verbatim>\<open>except\<close> turns
  into \<^verbatim>\<open>False\<close>. The database controller always answers \<^verbatim>\<open>True\<close>.
\<close>

definition is_running :: "ServiceController \<Rightarrow> (error + int option) \<Rightarrow> bool" where
  "is_running ctl poll =
     (if ctl_class ctl = DatabaseController_class then True
      else
        (case ctl_process ctl of
           None \<Rightarrow> False
         | Some pid \<Rightarrow> (case poll of Inl e \<Rightarrow> False | Inr code \<Rightarrow> code = None)))"

definition get_process_id :: "ServiceController \<Rightarrow> (error + int option) \<Rightarrow> int option" where
  "get_process_id ctl poll =
     (case ctl_process ctl of
        None \<Rightarrow> None
      | Some pid \<Rightarrow> if is_running ctl poll then Some pid else None)"

text \<open>
  \<^verbatim>\<open>get_resource_usage\<close>: \<open>sample\<close> is what the \<^verbatim>\<open>psutil\<close> calls answer, the usage
  figures or one of the two exceptions the method catches.
\<close>

datatype psutil_error = NoSuchProcess | AccessDenied

definition get_resource_usage ::
  "ServiceController \<Rightarrow> (error + int option) \<Rightarrow> (psutil_error + (string \<times> real) list) \<Rightarrow>
   (string \<times> real) list option" where
  "get_resource_usage ctl poll sample =
     (case ctl_process ctl of
        None \<Rightarrow> None
      | Some pid \<Rightarrow>
          if \<not> is_running ctl poll then None
          else (case sample of Inl e \<Rightarrow> None | Inr usage \<Rightarrow> Some usage))"

definition get_uptime :: "ServiceController \<Rightarrow> int \<Rightarrow> real option" where
  "get_uptime ctl now =
     (case ctl_start_time ctl of
        None \<Rightarrow> None
      | Some t \<Rightarrow> Some (total_seconds (now - t)))"

text \<open>
  The operating system, as the controller meets it. Every call may change the world
  \<open>'w\<close>, if only because time passes, and answers from it:
  \<^item> \<open>os_poll\<close>: \<^verbatim>\<open>process.poll()\<close>, the exit code, \<^verbatim>\<open>None\<close> for a live process, or an
    exception;
  \<^item> \<open>os_port_open\<close>: \<^verbatim>\<open>PortChecker.is_port_open(port)\<close>, which catches every exception;
  \<^item> \<open>os_popen\<close>: \<^verbatim>\<open>subprocess.Popen(...)\<close>, the new process or an exception;
  \<^item> \<open>os_now\<close>: \<^verbatim>\<open>datetime.now()\<close>;
  \<^item> \<open>os_wait_for_ready\<close>: \<^verbatim>\<open>_wait_for_ready()\<close>, which polls the port and the health
    endpoint of the controller's class against deadlines of wall-clock time, and
    answers, or raises;
  \<^item> \<open>os_sleep\<close>: \<^verbatim>\<open>asyncio.sleep(5)\<close>;
  \<^item> \<open>os_terminate\<close>: the termination signal (\<^verbatim>\<open>terminate()\<close>, or
    \<^verbatim>\<open>send_signal(CTRL_BREAK_EVENT)\<close> on Windows);
  \<^item> \<open>os_wait_timeout\<close>: \<^verbatim>\<open>process.wait(timeout=10)\<close>, which returns the exit code, raises
    \<^verbatim>\<open>TimeoutExpired\<close> or raises something else;
  \<^item> \<open>os_kill\<close>: \<^verbatim>\<open>process.kill()\<close>;
  \<^item> \<open>os_wait\<close>: \<^verbatim>\<open>process.wait()\<close>.
\<close>

datatype wait_answer = Exited int | TimeoutExpired | WaitRaised error

record 'w os =
  os_poll :: "int \<Rightarrow> 'w \<Rightarrow> (error + int option) \<times> 'w"
  os_port_open :: "int \<Rightarrow> 'w \<Rightarrow> bool \<times> 'w"
  os_popen :: "ServiceConfig \<Rightarrow> 'w \<Rightarrow> (error + int) \<times> 'w"
  os_now :: "'w \<Rightarrow> int \<times> 'w"
  os_wait_for_ready :: "ServiceController \<Rightarrow> 'w \<Rightarrow> (error + bool) \<times> 'w"
  os_sleep :: "'w \<Rightarrow> 'w"
  os_terminate :: "int \<Rightarrow> 'w \<Rightarrow> (error + unit) \<times> 'w"
  os_wait_timeout :: "int \<Rightarrow> 'w \<Rightarrow> wait_answer \<times> 'w"
  os_kill :: "int \<Rightarrow> 'w \<Rightarrow> (error + unit) \<times> 'w"
  os_wait :: "int \<Rightarrow> 'w \<Rightarrow> (error + int) \<times> 'w"

text \<open>\<^verbatim>\<open>is_running\<close> again, with the poll read from the world.\<close>

definition is_running_in :: "'w os \<Rightarrow> ServiceController \<Rightarrow> 'w \<Rightarrow> bool \<times> 'w" where
  "is_running_in os ctl w =
     (if ctl_class ctl = DatabaseController_class then (True, w)
      else
        (case ctl_process ctl of
           None \<Rightarrow> (False, w)
         | Some pid \<Rightarrow>
             (case os_poll os pid w of
                (Inl e, w') \<Rightarrow> (False, w')
              | (Inr code, w') \<Rightarrow> (code = None, w'))))"

text \<open>\<^verbatim>\<open>StartupResult(success=..., message=..., failed_services=..., started_services=...)\<close>.\<close>

definition startup_result :: "bool \<Rightarrow> string \<Rightarrow> string list \<Rightarrow> string list \<Rightarrow> StartupResult" where
  "startup_result success message failed started =
     \<lparr>sr_success = success, sr_message = message, sr_failed_services = failed,
      sr_started_services = started\<rparr>"

text \<open>
  \<^verbatim>\<open>ServiceController.stop\<close>. Every exception raised inside the \<^verbatim>\<open>try\<close> becomes a
  failure result; the handle and the start time are cleared only after the process
  has been waited for.
\<close>

definition stop_failed :: "ServiceController \<Rightarrow> error \<Rightarrow> StartupResult" where
  "stop_failed ctl e =
     startup_result False
       (''Failed to stop '' @ cfg_name (ctl_config ctl) @ '': '' @ str_of_error e) [] []"

definition stopped :: "ServiceController \<Rightarrow> StartupResult" where
  "stopped ctl =
     startup_result True (''Service '' @ cfg_name (ctl_config ctl) @ '' stopped successfully'') [] []"

definition cleared :: "ServiceController \<Rightarrow> ServiceController" where
  "cleared ctl = ctl\<lparr>ctl_process := None, ctl_start_time := None\<rparr>"

definition ServiceController_stop ::
  "'w os \<Rightarrow> ServiceController \<Rightarrow> 'w \<Rightarrow> StartupResult \<times> ServiceController \<times> 'w" where
  "ServiceController_stop os ctl w =
     (let (running, w1) = is_running_in os ctl w
      in if \<not> running then
           (startup_result True (''Service '' @ cfg_name (ctl_config ctl) @ '' is not running'') [] [],
            ctl, w1)
         else
           (case ctl_process ctl of
              None \<Rightarrow> (stopped ctl, ctl, w1)
            | Some pid \<Rightarrow>
                (case os_terminate os pid w1 of
                   (Inl e, w2) \<Rightarrow> (stop_failed ctl e, ctl, w2)
                 | (Inr u, w2) \<Rightarrow>
                     (case os_wait_timeout os pid w2 of
                        (Exited code, w3) \<Rightarrow> (stopped ctl, cleared ctl, w3)
                      | (WaitRaised e, w3) \<Rightarrow> (stop_failed ctl e, ctl, w3)
                      | (TimeoutExpired, w3) \<Rightarrow>
                          (case os_kill os pid w3 of
                             (Inl e, w4) \<Rightarrow> (stop_failed ctl e, ctl, w4)
                           | (Inr u', w4) \<Rightarrow>
                               (case os_wait os pid w4 of
                                  (Inl e, w5) \<Rightarrow> (stop_failed ctl e, ctl, w5)
                                | (Inr code, w5) \<Rightarrow> (stopped ctl, cleared ctl, w5)))))))"

text \<open>
  \<^verbatim>\<open>ServiceController.start\<close>. The loop \<^verbatim>\<open>for attempt in range(self.max_retries)\<close>
  is \<open>start_attempts\<close>, counted by the attempts that remain, so that
  \<^verbatim>\<open>attempt < self.max_retries - 1\<close> reads \<open>0 < remaining\<close> after the current attempt.
  An attempt fails when \<^verbatim>\<open>Popen\<close> or the wait raises, or when the service does
  not become ready: the controller's own \<^verbatim>\<open>stop\<close> is called, then comes the pause
  and the next attempt, or, after the last attempt, the failure result
  \<open>start_failed\<close> with the message of the branch.
\<close>

definition max_retries_text :: "ServiceController \<Rightarrow> string" where
  "max_retries_text ctl = str_int (ctl_max_retries ctl)"

definition start_failed :: "ServiceController \<Rightarrow> string \<Rightarrow> StartupResult" where
  "start_failed ctl message = startup_result False message [cfg_name (ctl_config ctl)] []"

definition not_ready_message :: "ServiceController \<Rightarrow> string" where
  "not_ready_message ctl =
     ''Service '' @ cfg_name (ctl_config ctl) @ '' failed to become ready after '' @
     max_retries_text ctl @ '' attempts''"

definition raised_message :: "ServiceController \<Rightarrow> error \<Rightarrow> string" where
  "raised_message ctl e =
     ''Failed to start '' @ cfg_name (ctl_config ctl) @ '' after '' @
     max_retries_text ctl @ '' attempts: '' @ str_of_error e"

fun start_attempts ::
  "'w os \<Rightarrow> nat \<Rightarrow> ServiceController \<Rightarrow> 'w \<Rightarrow> StartupResult \<times> ServiceController \<times> 'w" where
  "start_attempts os 0 ctl w =
     (start_failed ctl
        (''Service '' @ cfg_name (ctl_config ctl) @ '' failed to start after '' @
         max_retries_text ctl @ '' attempts''),
      ctl, w)"
| "start_attempts os (Suc remaining) ctl w =
     (case os_popen os (ctl_config ctl) w of
        (Inl e, w1) \<Rightarrow>
          (let (stop_answer, ctl1, w2) = ServiceController_stop os ctl w1
           in if 0 < remaining then start_attempts os remaining ctl1 (os_sleep os w2)
              else (start_failed ctl1 (raised_message ctl1 e), ctl1, w2))
      | (Inr pid, w1) \<Rightarrow>
          (let (now, w2) = os_now os w1;
               ctl1 = ctl\<lparr>ctl_process := Some pid, ctl_start_time := Some now\<rparr>
           in case os_wait_for_ready os ctl1 w2 of
                (Inr True, w3) \<Rightarrow>
                  (startup_result True
                     (''Service '' @ cfg_name (ctl_config ctl1) @ '' started successfully'')
                     [] [cfg_name (ctl_config ctl1)],
                   ctl1\<lparr>ctl_retry_count := 0\<rparr>, w3)
              | (Inr False, w3) \<Rightarrow>
                  (let (stop_answer, ctl2, w4) = ServiceController_stop os ctl1 w3
                   in if 0 < remaining then start_attempts os remaining ctl2 (os_sleep os w4)
                      else (start_failed ctl2 (not_ready_message ctl2), ctl2, w4))
              | (Inl e, w3) \<Rightarrow>
                  (let (stop_answer, ctl2, w4) = ServiceController_stop os ctl1 w3
                   in if 0 < remaining then start_attempts os remaining ctl2 (os_sleep os w4)
                      else (start_failed ctl2 (raised_message ctl2 e), ctl2, w4))))"

definition ServiceController_start ::
  "'w os \<Rightarrow> ServiceController \<Rightarrow> 'w \<Rightarrow> StartupResult \<times> ServiceController \<times> 'w" where
  "ServiceController_start os ctl w =
     (let (running, w1) = is_running_in os ctl w
      in if running then
           (startup_result True
              (''Service '' @ cfg_name (ctl_config ctl) @ '' is already running'') [] [],
            ctl, w1)
         else
           (let (port_open, w2) = os_port_open os (cfg_port (ctl_config ctl)) w1
            in if port_open then
                 (startup_result True
                    (''Service '' @ cfg_name (ctl_config ctl) @ '' is already running on port '' @
                     str_int (cfg_port (ctl_config ctl))) [] [],
                  ctl, w2)
               else start_attempts os (nat (ctl_max_retries ctl)) ctl w2))"

text \<open>
  The method a call reaches: \<^verbatim>\<open>DatabaseController\<close> overrides \<^verbatim>\<open>start\<close> and
  \<^verbatim>\<open>stop\<close>, the backend and the frontend controller inherit them.
\<close>

definition controller_start ::
  "'w os \<Rightarrow> ServiceController \<Rightarrow> 'w \<Rightarrow> StartupResult \<times> ServiceController \<times> 'w" where
  "controller_start os ctl w =
     (if ctl_class ctl = DatabaseController_class
      then (startup_result True ''Database connection check completed'' [] [], ctl, w)
      else ServiceController_start os ctl w)"

definition controller_stop ::
  "'w os \<Rightarrow> ServiceController \<Rightarrow> 'w \<Rightarrow> StartupResult \<times> ServiceController \<times> 'w" where
  "controller_stop os ctl w =
     (if ctl_class ctl = DatabaseController_class
      then (startup_result True ''Database connection closed'' [] [], ctl, w)
      else ServiceController_stop os ctl w)"

record ServiceManager =
  mgr_config :: services
  mgr_controllers :: "(string \<times> ServiceController) list"

definition controller_class_of :: "string \<Rightarrow> controller_class" where
  "controller_class_of service_name =
     (if service_name = ''backend'' then BackendServiceController_class
      else if service_name = ''frontend'' then FrontendServiceController_class
      else if service_name = ''database'' then DatabaseController_class
      else ServiceController_class)"

fun initialize_controllers ::
  "services \<Rightarrow> (string \<times> ServiceController) list \<Rightarrow> (string \<times> ServiceController) list" where
  "initialize_controllers [] controllers = controllers"
| "initialize_controllers ((service_name, service_config) # rest) controllers =
     initialize_controllers rest
       (AList.update service_name
          (new_controller (controller_class_of service_name) service_config) controllers)"

definition ServiceManager_init :: "services \<Rightarrow> ServiceManager" where
  "ServiceManager_init sv = \<lparr>mgr_config = sv, mgr_controllers = initialize_controllers sv []\<rparr>"

text \<open>
  \<^verbatim>\<open>start_service\<close> and \<^verbatim>\<open>stop_service\<close>. The controller found under the name
  is a mutable object: what its method leaves of it is stored back in the map.
\<close>

definition unknown_service_result :: "string \<Rightarrow> StartupResult" where
  "unknown_service_result service_name =
     \<lparr>sr_success = False, sr_message = ''Unknown service: '' @ service_name,
      sr_failed_services = [service_name], sr_started_services = []\<rparr>"

definition start_service ::
  "'w os \<Rightarrow> ServiceManager \<Rightarrow> string \<Rightarrow> 'w \<Rightarrow> (error + StartupResult) \<times> ServiceManager \<times> 'w" where
  "start_service os mgr service_name w =
     (case map_of (mgr_controllers mgr) service_name of
        None \<Rightarrow> (Inr (unknown_service_result service_name), mgr, w)
      | Some controller \<Rightarrow>
          (let (result, controller', w') = controller_start os controller w
           in (Inr result,
               mgr\<lparr>mgr_controllers := AList.update service_name controller' (mgr_controllers mgr)\<rparr>,
               w')))"

definition stop_service ::
  "'w os \<Rightarrow> ServiceManager \<Rightarrow> string \<Rightarrow> 'w \<Rightarrow> (error + StartupResult) \<times> ServiceManager \<times> 'w" where
  "stop_service os mgr service_name w =
     (case map_of (mgr_controllers mgr) service_name of
        None \<Rightarrow> (Inr (unknown_service_result service_name), mgr, w)
      | Some controller \<Rightarrow>
          (let (result, controller', w') = controller_stop os controller w
           in (Inr result,
               mgr\<lparr>mgr_controllers := AList.update service_name controller' (mgr_controllers mgr)\<rparr>,
               w')))"

text \<open>
  The calls made on the service manager, in the order in which they are made, are
  returned as a journal beside the result.
\<close>

datatype call = StartCall string | StopCall string



text \<open>
  \<^verbatim>\<open>check_service_health\<close>. The observations of one check: the three answers of
  \<^verbatim>\<open>process.poll()\<close> (in \<^verbatim>\<open>is_running\<close>, in \<^verbatim>\<open>get_resource_usage\<close> and in
  \<^verbatim>\<open>get_process_id\<close>), the port probe, the readiness probe \<^verbatim>\<open>_check_health\<close>
  (a boolean or an exception), the two readings of \<^verbatim>\<open>time.time()\<close>, the \<^verbatim>\<open>psutil\<close>
  sample and the two readings of \<^verbatim>\<open>datetime.now()\<close>.
\<close>

record health_obs =
  obs_poll :: "error + int option"
  obs_port_open :: bool
  obs_probe :: "error + bool"
  obs_time_before :: real
  obs_time_after :: real
  obs_poll_usage :: "error + int option"
  obs_sample :: "psutil_error + (string \<times> real) list"
  obs_now_uptime :: int
  obs_now :: int
  obs_poll_pid :: "error + int option"

definition localhost_url :: "int \<Rightarrow> string" where
  "localhost_url port = ''http://localhost:'' @ str_int port"

definition check_service_health :: "ServiceManager \<Rightarrow> string \<Rightarrow> health_obs \<Rightarrow> error + ServiceHealth" where
  "check_service_health mgr service_name obs =
     (case map_of (mgr_controllers mgr) service_name of
        None \<Rightarrow>
          (case get_service_config (mgr_config mgr) service_name of
             Inl e \<Rightarrow> Inl e
           | Inr config \<Rightarrow>
               Inr \<lparr>sh_name = service_name, sh_status = ERROR, sh_port = cfg_port config,
                    sh_url = localhost_url (cfg_port config), sh_response_time = None,
                    sh_last_check = Some (obs_now obs),
                    sh_error_message = Some (''Unknown service: '' @ service_name),
                    sh_process_id = None, sh_resource_usage = None, sh_uptime = None\<rparr>)
      | Some controller \<Rightarrow>
          (case get_service_config (mgr_config mgr) service_name of
             Inl e \<Rightarrow> Inl e
           | Inr config \<Rightarrow>
               (let running = is_running controller (obs_poll obs);
                    port_open = obs_port_open obs;
                    (is_healthy, error_message) =
                      (if port_open then
                         (case obs_probe obs of
                            Inr healthy \<Rightarrow>
                              (healthy,
                               if \<not> healthy then Some ''Service not responding to health checks''
                               else None)
                          | Inl e \<Rightarrow> (False, Some (''Health check failed: '' @ str_of_error e)))
                       else if running then
                         (False,
                          Some (''Port '' @ str_int (cfg_port config) @
                                '' is not accepting connections''))
                       else (False, Some ''Service process is not running''));
                    response_time = obs_time_after obs - obs_time_before obs;
                    status =
                      (if port_open \<and> is_healthy then RUNNING
                       else if port_open \<and> \<not> is_healthy then ERROR
                       else STOPPED);
                    resource_usage =
                      get_resource_usage controller (obs_poll_usage obs) (obs_sample obs);
                    uptime = get_uptime controller (obs_now_uptime obs)
                in Inr \<lparr>sh_name = service_name, sh_status = status, sh_port = cfg_port config,
                        sh_url = localhost_url (cfg_port config),
                        sh_response_time = Some response_time,
                        sh_last_check = Some (obs_now obs), sh_error_message = error_message,
                        sh_process_id = get_process_id controller (obs_poll_pid obs),
                        sh_resource_usage = resource_usage, sh_uptime = uptime\<rparr>)))"

section \<open>dependency_validator.py\<close>

datatype APIProvider = OPENAI | ANTHROPIC | HUGGINGFACE | COHERE | MISTRAL | GEMINI

fun provider_value :: "APIProvider \<Rightarrow> string" where
  "provider_value OPENAI = ''openai''"
| "provider_value ANTHROPIC = ''anthropic''"
| "provider_value HUGGINGFACE = ''huggingface''"
| "provider_value COHERE = ''cohere''"
| "provider_value MISTRAL = ''mistral''"
| "provider_value GEMINI = ''gemini''"

record APIKeyInfo =
  key_provider :: APIProvider
  key_hash :: string
  masked_key :: string
  is_valid :: bool
  last_validated :: "int option"
  validation_error :: "string option"

text \<open>\<^verbatim>\<open>APIKeyManager.keys\<close>, the table the credential store holds once constructed.\<close>

type_synonym api_keys = "(APIProvider \<times> APIKeyInfo) list"

definition get_key_info :: "api_keys \<Rightarrow> APIProvider \<Rightarrow> APIKeyInfo option" where
  "get_key_info keys provider = map_of keys provider"

text \<open>
  \<^verbatim>\<open>check_api_keys\<close>. The loop sorts the four providers into the available and the
  missing ones; both \<^verbatim>\<open>return\<close> statements then construct a \<^verbatim>\<open>DependencyStatus\<close>
  with the keyword \<^verbatim>\<open>api_keys_ok\<close>.
\<close>

fun sort_providers :: "api_keys \<Rightarrow> APIProvider list \<Rightarrow> string list \<times> string list" where
  "sort_providers keys [] = ([], [])"
| "sort_providers keys (provider # rest) =
     (let (available_providers, missing_providers) = sort_providers keys rest
      in case get_key_info keys provider of
           None \<Rightarrow> (available_providers, provider_value provider # missing_providers)
         | Some key_info \<Rightarrow>
             if is_valid key_info
             then (provider_value provider # available_providers, missing_providers)
             else (available_providers, provider_value provider # missing_providers))"

definition check_api_keys :: "api_keys \<Rightarrow> error + DependencyStatus" where
  "check_api_keys keys =
     (let (available_providers, missing_providers) =
            sort_providers keys [OPENAI, MISTRAL, GEMINI, ANTHROPIC]
      in if available_providers = [] then
           DependencyStatus_init
             [(''api_keys_ok'', PyBool False),
              (''missing_api_keys'',
               PyStrList [''No valid API keys found. Please configure at least one API key in the Health Monitor.''])]
         else
           DependencyStatus_init
             [(''api_keys_ok'', PyBool True),
              (''missing_api_keys'', PyStrList []),
              (''api_keys_configured'', PyBool True)])"

text \<open>
  \<^verbatim>\<open>validate_all_dependencies\<close>. The package check and the toolchain check catch
  every exception themselves and answer a \<^verbatim>\<open>DependencyStatus\<close> each; the two
  answers are observations. The credential check is called without a handler.
\<close>

definition validate_all_dependencies ::
  "DependencyStatus \<Rightarrow> DependencyStatus \<Rightarrow> api_keys \<Rightarrow> error + ValidationResult" where
  "validate_all_dependencies python_status node_status keys =
     (case check_api_keys keys of
        Inl e \<Rightarrow> Inl e
      | Inr api_keys_status \<Rightarrow>
          (let all_success = (python_deps_ok python_status \<and> node_deps_ok node_status \<and>
                 api_keys_configured api_keys_status);
               missing_deps = missing_python_deps python_status @ missing_node_deps node_status @
                 missing_api_keys api_keys_status;
               installation_commands =
                 (if missing_python_deps python_status \<noteq> []
                  then [''pip install -r requirements.txt''] else []) @
                 (if missing_node_deps node_status \<noteq> [] then [''npm install''] else []);
               message =
                 (if all_success then ''All dependencies validated successfully''
                  else ''Missing dependencies: '' @ join '', '' missing_deps)
           in Inr \<lparr>vr_success = all_success, vr_message = message,
                   vr_missing_dependencies = missing_deps,
                   vr_installation_commands = installation_commands\<rparr>))"

section \<open>health_monitor.py\<close>

text \<open>
  The monitor holds its configuration and the cached snapshot with the time of the
  last check. Its collaborators (the service manager, the dependency validator, the
  credential store) are objects held in fields; what their methods answer during a
  call is passed in, so the functions below cover every behaviour of a collaborator.
\<close>

record HealthMonitor =
  hm_services :: services
  hm_last_health_check :: "int option"
  hm_cached_status :: "HealthStatus option"

text \<open>\<^verbatim>\<open>_collect_issues\<close>; \<open>stamp\<close> gives the clock reading taken for the issue of a component.\<close>

definition service_issue :: "(string \<Rightarrow> int) \<Rightarrow> string \<times> ServiceHealth \<Rightarrow> Issue list" where
  "service_issue stamp item =
     (let service_name = fst item; health = snd item;
          component = ''service.'' @ service_name
      in if sh_status health = ERROR then
           [\<lparr>iss_severity = CRITICAL, iss_component = component,
             iss_message = ''Service '' @ service_name @ '' is not running: '' @
               (case sh_error_message health of
                  None \<Rightarrow> ''Unknown error''
                | Some m \<Rightarrow> if m = [] then ''Unknown error'' else m),
             iss_suggested_action = ''Check service logs and restart '' @ service_name,
             iss_timestamp = stamp component\<rparr>]
         else if sh_status health = STOPPED then
           [\<lparr>iss_severity = WARNING, iss_component = component,
             iss_message = ''Service '' @ service_name @ '' is stopped'',
             iss_suggested_action = ''Start '' @ service_name @ '' service'',
             iss_timestamp = stamp component\<rparr>]
         else [])"

definition collect_issues ::
  "(string \<Rightarrow> int) \<Rightarrow> (string \<times> ServiceHealth) list \<Rightarrow> DependencyStatus \<Rightarrow> Issue list" where
  "collect_issues stamp service_health dependency_status =
     concat (map (service_issue stamp) service_health) @
     (if missing_python_deps dependency_status \<noteq> [] then
        [\<lparr>iss_severity = CRITICAL, iss_component = ''dependencies.python'',
          iss_message = ''Missing Python dependencies: '' @
            join '', '' (missing_python_deps dependency_status),
          iss_suggested_action = ''Run: pip install -r requirements.txt'',
          iss_timestamp = stamp ''dependencies.python''\<rparr>]
      else []) @
     (if missing_node_deps dependency_status \<noteq> [] then
        [\<lparr>iss_severity = CRITICAL, iss_component = ''dependencies.node'',
          iss_message = ''Missing Node.js dependencies: '' @
            join '', '' (missing_node_deps dependency_status),
          iss_suggested_action = ''Run: npm install'',
          iss_timestamp = stamp ''dependencies.node''\<rparr>]
      else []) @
     (if missing_api_keys dependency_status \<noteq> [] then
        [\<lparr>iss_severity = WARNING, iss_component = ''configuration.api_keys'',
          iss_message = ''Missing API keys: '' @ join '', '' (missing_api_keys dependency_status),
          iss_suggested_action = ''Configure API keys in environment variables or .env file'',
          iss_timestamp = stamp ''configuration.api_keys''\<rparr>]
      else [])"

text \<open>\<^verbatim>\<open>_determine_overall_status\<close>.\<close>

definition determine_overall_status ::
  "(string \<times> ServiceHealth) list \<Rightarrow> DependencyStatus \<Rightarrow> Issue list \<Rightarrow> OverallStatus" where
  "determine_overall_status service_health dependency_status issues =
     (let critical_issues = filter (\<lambda>i. iss_severity i = CRITICAL) issues
      in if critical_issues \<noteq> [] then UNHEALTHY
         else
           (let running_services =
                  sum_list (map (\<lambda>h. (1::nat))
                    (filter (\<lambda>h. sh_status h = RUNNING) (map snd service_health)));
                total_services = length service_health
            in if running_services = 0 then UNHEALTHY
               else if running_services < total_services then DEGRADED
               else
                 (let warning_issues = filter (\<lambda>i. iss_severity i = WARNING) issues
                  in if warning_issues \<noteq> [] then DEGRADED else HEALTHY)))"

text \<open>
  \<^verbatim>\<open>_check_all_services\<close>. \<open>check\<close> is what
  \<^verbatim>\<open>self.service_manager.check_service_health(name)\<close> answers for each name, a
  \<^verbatim>\<open>ServiceHealth\<close> or an exception; \<open>error_time\<close> is the reading of
  \<^verbatim>\<open>datetime.now()\<close> in the handler.
\<close>

definition error_health :: "string \<Rightarrow> ServiceConfig \<Rightarrow> error \<Rightarrow> int \<Rightarrow> ServiceHealth" where
  "error_health service_name config e now =
     \<lparr>sh_name = service_name, sh_status = ERROR, sh_port = cfg_port config,
      sh_url = localhost_url (cfg_port config), sh_response_time = None,
      sh_last_check = Some now, sh_error_message = Some (str_of_error e),
      sh_process_id = None, sh_resource_usage = None, sh_uptime = None\<rparr>"

fun check_all_loop ::
  "services \<Rightarrow> (string \<Rightarrow> error + ServiceHealth) \<Rightarrow> (string \<Rightarrow> int) \<Rightarrow> string list \<Rightarrow>
   (string \<times> ServiceHealth) list \<Rightarrow> error + (string \<times> ServiceHealth) list" where
  "check_all_loop sv check error_time [] service_health = Inr service_health"
| "check_all_loop sv check error_time (service_name # rest) service_health =
     (case check service_name of
        Inr health \<Rightarrow>
          check_all_loop sv check error_time rest (AList.update service_name health service_health)
      | Inl e \<Rightarrow>
          (case get_service_config sv service_name of
             Inl e' \<Rightarrow> Inl e'
           | Inr config \<Rightarrow>
               check_all_loop sv check error_time rest
                 (AList.update service_name
                    (error_health service_name config e (error_time service_name))
                    service_health)))"

definition check_all_services ::
  "services \<Rightarrow> (string \<Rightarrow> error + ServiceHealth) \<Rightarrow> (string \<Rightarrow> int) \<Rightarrow>
   error + (string \<times> ServiceHealth) list" where
  "check_all_services sv check error_time =
     check_all_loop sv check error_time (get_all_services sv) []"

text \<open>
  \<^verbatim>\<open>check_system_health\<close>. The observations of one sweep: the answers of the health
  checks, of \<^verbatim>\<open>validate_all_dependencies\<close> and of \<^verbatim>\<open>validate_all_keys\<close>, and the
  clock readings.
\<close>

record sweep_obs =
  sw_check :: "string \<Rightarrow> error + ServiceHealth"
  sw_error_time :: "string \<Rightarrow> int"
  sw_validation :: "error + ValidationResult"
  sw_key_status :: "error + (APIProvider \<times> bool) list"
  sw_issue_time :: "string \<Rightarrow> int"
  sw_check_time :: int
  sw_stamp_time :: int

definition check_system_health ::
  "HealthMonitor \<Rightarrow> sweep_obs \<Rightarrow> (error + HealthStatus) \<times> HealthMonitor" where
  "check_system_health hm sw =
     (case check_all_services (hm_services hm) (sw_check sw) (sw_error_time sw) of
        Inl e \<Rightarrow> (Inl e, hm)
      | Inr service_health \<Rightarrow>
          (case sw_validation sw of
             Inl e \<Rightarrow> (Inl e, hm)
           | Inr validation_result \<Rightarrow>
               (case sw_key_status sw of
                  Inl e \<Rightarrow> (Inl e, hm)
                | Inr api_key_status \<Rightarrow>
                    (let keys_configured = list_ex (\<lambda>v. v) (map snd api_key_status);
                         dependency_status =
                           \<lparr>python_deps_ok = vr_success validation_result,
                            node_deps_ok = vr_success validation_result,
                            api_keys_configured = keys_configured,
                            missing_python_deps =
                              (if \<not> vr_success validation_result
                               then vr_missing_dependencies validation_result else []),
                            missing_node_deps =
                              (if \<not> vr_success validation_result
                               then vr_missing_dependencies validation_result else []),
                            missing_api_keys =
                              map (\<lambda>item. provider_value (fst item))
                                (filter (\<lambda>item. \<not> snd item) api_key_status)\<rparr>;
                         issues = collect_issues (sw_issue_time sw) service_health dependency_status;
                         overall_status =
                           determine_overall_status service_health dependency_status issues;
                         health_status =
                           \<lparr>hs_overall_status = overall_status, hs_services = service_health,
                            hs_dependencies = dependency_status,
                            hs_last_check = sw_check_time sw, hs_issues = issues\<rparr>
                     in (Inr health_status,
                         hm\<lparr>hm_cached_status := Some health_status,
                            hm_last_health_check := Some (sw_stamp_time sw)\<rparr>)))))"

text \<open>
  \<^verbatim>\<open>_stop_started_services\<close> and \<^verbatim>\<open>start_services\<close>. \<open>ops\<close> holds the two methods of
  \<^verbatim>\<open>self.service_manager\<close> that are called, \<^verbatim>\<open>start_service(name)\<close> and
  \<^verbatim>\<open>stop_service(name)\<close>: each answers, or raises, and changes the state \<open>'s\<close> of
  the manager and of the world it acts on. \<open>manager_ops_of\<close> are the methods of the
  \<^verbatim>\<open>ServiceManager\<close> of this module. \<open>validation\<close> is what
  \<^verbatim>\<open>validate_all_dependencies()\<close> answers. The loops return the journal of the calls
  they made and the state they leave.
\<close>

record 's manager_ops =
  op_start :: "string \<Rightarrow> 's \<Rightarrow> (error + StartupResult) \<times> 's"
  op_stop :: "string \<Rightarrow> 's \<Rightarrow> (error + StartupResult) \<times> 's"

definition manager_ops_of :: "'w os \<Rightarrow> (ServiceManager \<times> 'w) manager_ops" where
  "manager_ops_of os =
     \<lparr>op_start = (\<lambda>service_name (mgr, w). start_service os mgr service_name w),
      op_stop = (\<lambda>service_name (mgr, w). stop_service os mgr service_name w)\<rparr>"

text \<open>
  \<^verbatim>\<open>_stop_started_services\<close>: the answer of \<^verbatim>\<open>stop_service\<close> is not read, and an
  exception it raises is logged; in both cases the loop goes on.
\<close>

fun stop_loop :: "'s manager_ops \<Rightarrow> string list \<Rightarrow> 's \<Rightarrow> call list \<times> 's" where
  "stop_loop ops [] s = ([], s)"
| "stop_loop ops (service_name # rest) s =
     (let (answer, s') = op_stop ops service_name s;
          (journal, s'') = stop_loop ops rest s'
      in (StopCall service_name # journal, s''))"

definition stop_started_services :: "'s manager_ops \<Rightarrow> string list \<Rightarrow> 's \<Rightarrow> call list \<times> 's" where
  "stop_started_services ops started_services s = stop_loop ops (rev started_services) s"

fun start_loop ::
  "'s manager_ops \<Rightarrow> string list \<Rightarrow> string list \<Rightarrow> 's \<Rightarrow>
   string list \<times> string list \<times> call list \<times> 's" where
  "start_loop ops [] started_services s = (started_services, [], [], s)"
| "start_loop ops (service_name # rest) started_services s =
     (case op_start ops service_name s of
        (Inr result, s') \<Rightarrow>
          if sr_success result then
            (let (started, failed, journal, s'') =
                   start_loop ops rest (started_services @ [service_name]) s'
             in (started, failed, StartCall service_name # journal, s''))
          else
            (let (journal, s'') = stop_started_services ops started_services s'
             in (started_services, [service_name], StartCall service_name # journal, s''))
      | (Inl e, s') \<Rightarrow>
          (let (journal, s'') = stop_started_services ops started_services s'
           in (started_services, [service_name], StartCall service_name # journal, s'')))"

definition start_services ::
  "services \<Rightarrow> 's manager_ops \<Rightarrow> (error + ValidationResult) \<Rightarrow> 's \<Rightarrow>
   (error + StartupResult) \<times> call list \<times> 's" where
  "start_services sv ops validation s =
     (case validation of
        Inl e \<Rightarrow> (Inl e, [], s)
      | Inr validation_result \<Rightarrow>
          if \<not> vr_success validation_result then
            (Inr \<lparr>sr_success = False,
                  sr_message = ''Dependency validation failed: '' @ vr_message validation_result,
                  sr_failed_services = get_all_services sv, sr_started_services = []\<rparr>, [], s)
          else
            (case get_startup_order sv of
               Inl e \<Rightarrow> (Inl e, [], s)
             | Inr startup_order \<Rightarrow>
                 (let (started_services, failed_services, journal, s') =
                        start_loop ops startup_order [] s;
                      success = (length failed_services = 0);
                      message =
                        (if success then ''All services started successfully''
                         else ''Failed to start: '' @ join '', '' failed_services)
                  in (Inr \<lparr>sr_success = success, sr_message = message,
                           sr_failed_services = failed_services,
                           sr_started_services = started_services\<rparr>, journal, s'))))"

text \<open>
  \<^verbatim>\<open>get_system_status\<close>. \<open>now1\<close> and \<open>now2\<close> are the two readings of
  \<^verbatim>\<open>datetime.now()\<close>, in the staleness test and in the uptime; \<open>fresh_status\<close> is
  the branch that calls \<^verbatim>\<open>check_system_health\<close>.
\<close>

definition resource_usage_placeholder :: "(string \<times> real) list" where
  "resource_usage_placeholder =
     [(''cpu_percent'', 0), (''memory_percent'', 0), (''disk_percent'', 0)]"

definition system_status_of :: "HealthMonitor \<Rightarrow> HealthStatus \<Rightarrow> int \<Rightarrow> SystemStatus" where
  "system_status_of hm health_status now2 =
     \<lparr>sys_health = health_status,
      sys_uptime =
        (case hm_last_health_check hm of
           None \<Rightarrow> None
         | Some last_check \<Rightarrow> Some (total_seconds (now2 - last_check))),
      sys_resource_usage = Some resource_usage_placeholder,
      sys_active_connections = 0\<rparr>"

definition fresh_status ::
  "HealthMonitor \<Rightarrow> sweep_obs \<Rightarrow> int \<Rightarrow> (error + SystemStatus) \<times> HealthMonitor" where
  "fresh_status hm sw now2 =
     (case check_system_health hm sw of
        (Inl e, hm') \<Rightarrow> (Inl e, hm')
      | (Inr health_status, hm') \<Rightarrow> (Inr (system_status_of hm' health_status now2), hm'))"

definition get_system_status ::
  "HealthMonitor \<Rightarrow> int \<Rightarrow> sweep_obs \<Rightarrow> int \<Rightarrow> (error + SystemStatus) \<times> HealthMonitor" where
  "get_system_status hm now1 sw now2 =
     (case hm_cached_status hm of
        None \<Rightarrow> fresh_status hm sw now2
      | Some cached \<Rightarrow>
          (case hm_last_health_check hm of
             None \<Rightarrow> fresh_status hm sw now2
           | Some last_check \<Rightarrow>
               if timedelta_seconds (now1 - last_check) > 60 then fresh_status hm sw now2
               else (Inr (system_status_of hm cached now2), hm)))"

section \<open>Vocabulary of the properties\<close>

text \<open>The declared dependencies of a service; a name that is not configured has none.\<close>

definition deps_of :: "services \<Rightarrow> string \<Rightarrow> string list" where
  "deps_of sv s = (case map_of sv s of None \<Rightarrow> [] | Some c \<Rightarrow> cfg_dependencies c)"


text \<open>Service tables used as concrete inputs.\<close>

definition service_entry :: "string \<Rightarrow> int \<Rightarrow> string list \<Rightarrow> string \<times> ServiceConfig" where
  "service_entry n p deps =
     (n, \<lparr>cfg_name = n, cfg_port = p, cfg_health_endpoint = ''/health'',
          cfg_startup_command = ''run'', cfg_startup_args = [], cfg_working_directory = ''.'',
          cfg_environment_vars = [], cfg_dependencies = deps, cfg_startup_timeout = 30,
          cfg_health_check_timeout = 5\<rparr>)"

definition cyclic_services :: services where
  "cyclic_services =
     [service_entry ''worker'' 9001 [''queue''], service_entry ''queue'' 9002 [''worker'']]"


text \<open>A health entry and an issue, used as concrete inputs.\<close>

definition health_entry :: "string \<Rightarrow> ServiceStatus \<Rightarrow> string \<times> ServiceHealth" where
  "health_entry n st =
     (n, \<lparr>sh_name = n, sh_status = st, sh_port = 8000, sh_url = ''http://localhost:8000'',
          sh_response_time = None, sh_last_check = None, sh_error_message = None,
          sh_process_id = None, sh_resource_usage = None, sh_uptime = None\<rparr>)"

definition issue_of :: "IssueSeverity \<Rightarrow> Issue" where
  "issue_of sev =
     \<lparr>iss_severity = sev, iss_component = ''component'', iss_message = ''message'',
      iss_suggested_action = ''action'', iss_timestamp = 0\<rparr>"


text \<open>A stored key that validated, and a monitor holding a cached snapshot taken at time 0.\<close>

definition valid_key :: "APIProvider \<Rightarrow> APIProvider \<times> APIKeyInfo" where
  "valid_key p =
     (p, \<lparr>key_provider = p, key_hash = ''hash'', masked_key = ''****abcd'', is_valid = True,
          last_validated = None, validation_error = None\<rparr>)"

definition empty_snapshot :: HealthStatus where
  "empty_snapshot =
     \<lparr>hs_overall_status = HEALTHY, hs_services = [], hs_dependencies = DependencyStatus_default,
      hs_last_check = 0, hs_issues = []\<rparr>"

definition cached_monitor :: HealthMonitor where
  "cached_monitor =
     \<lparr>hm_services = get_default_services ''/app'' ''/frontend'',
      hm_last_health_check = Some 0, hm_cached_status = Some empty_snapshot\<rparr>"


text \<open>Observations of one health check, given the answers of the port probe and of the readiness probe.\<close>

definition probe_obs :: "bool \<Rightarrow> (error + bool) \<Rightarrow> health_obs" where
  "probe_obs port_open probe =
     \<lparr>obs_poll = Inr None, obs_port_open = port_open, obs_probe = probe,
      obs_time_before = 0, obs_time_after = 1, obs_poll_usage = Inr None,
      obs_sample = Inl NoSuchProcess, obs_now_uptime = 0, obs_now = 0,
      obs_poll_pid = Inr None\<rparr>"







text \<open>
  The start of a service succeeds in a state: the call returns a result whose flag is
  set. \<open>run_starts\<close> and \<open>run_stops\<close> are the states that a sequence of starts and a
  sequence of stops lead to; \<open>starts_succeed\<close> says that each start of a sequence
  succeeds in the state its predecessors have left.
\<close>

definition start_ok :: "'s manager_ops \<Rightarrow> string \<Rightarrow> 's \<Rightarrow> bool" where
  "start_ok ops service_name s =
     (case fst (op_start ops service_name s) of Inl e \<Rightarrow> False | Inr result \<Rightarrow> sr_success result)"

fun run_starts :: "'s manager_ops \<Rightarrow> string list \<Rightarrow> 's \<Rightarrow> 's" where
  "run_starts ops [] s = s"
| "run_starts ops (service_name # rest) s = run_starts ops rest (snd (op_start ops service_name s))"

fun run_stops :: "'s manager_ops \<Rightarrow> string list \<Rightarrow> 's \<Rightarrow> 's" where
  "run_stops ops [] s = s"
| "run_stops ops (service_name # rest) s = run_stops ops rest (snd (op_stop ops service_name s))"

fun starts_succeed :: "'s manager_ops \<Rightarrow> string list \<Rightarrow> 's \<Rightarrow> bool" where
  "starts_succeed ops [] s = True"
| "starts_succeed ops (service_name # rest) s =
     (start_ok ops service_name s \<and> starts_succeed ops rest (snd (op_start ops service_name s)))"


definition failed_result :: "string list \<Rightarrow> string \<Rightarrow> StartupResult" where
  "failed_result started failed =
     \<lparr>sr_success = False, sr_message = ''Failed to start: '' @ failed,
      sr_failed_services = [failed], sr_started_services = started\<rparr>"

text \<open>A validation that succeeded.\<close>

definition ok_validation :: ValidationResult where
  "ok_validation =
     \<lparr>vr_success = True, vr_message = ''All dependencies validated successfully'',
      vr_missing_dependencies = [], vr_installation_commands = []\<rparr>"

text \<open>
  A small operating system, used as a concrete input. Its world lists the ports
  that are listening, the processes that are alive and the time. A process is
  known by the port it serves. \<open>Popen\<close> finds only the installed commands; a spawned
  process listens at once and is ready; a terminated or killed process exits and
  frees its port.
\<close>

record sim_world =
  sim_listening :: "int list"
  sim_alive :: "int list"
  sim_clock :: int

definition sim_exit :: "int \<Rightarrow> sim_world \<Rightarrow> sim_world" where
  "sim_exit pid w =
     w\<lparr>sim_alive := removeAll pid (sim_alive w), sim_listening := removeAll pid (sim_listening w)\<rparr>"

definition sim_os :: "string list \<Rightarrow> sim_world os" where
  "sim_os installed =
     \<lparr>os_poll = (\<lambda>pid w. (Inr (if pid \<in> set (sim_alive w) then None else Some 0), w)),
      os_port_open = (\<lambda>port w. (port \<in> set (sim_listening w), w)),
      os_popen = (\<lambda>config w.
        if cfg_startup_command config \<in> set installed
        then (Inr (cfg_port config),
              w\<lparr>sim_alive := cfg_port config # sim_alive w,
                sim_listening := cfg_port config # sim_listening w\<rparr>)
        else (Inl (OtherException (''[Errno 2] No such file or directory: '' @
                     py_repr (cfg_startup_command config))), w)),
      os_now = (\<lambda>w. (sim_clock w, w)),
      os_wait_for_ready = (\<lambda>ctl w. (Inr (cfg_port (ctl_config ctl) \<in> set (sim_listening w)), w)),
      os_sleep = (\<lambda>w. w\<lparr>sim_clock := sim_clock w + 5000000\<rparr>),
      os_terminate = (\<lambda>pid w. (Inr (), sim_exit pid w)),
      os_wait_timeout = (\<lambda>pid w. (Exited 0, w)),
      os_kill = (\<lambda>pid w. (Inr (), sim_exit pid w)),
      os_wait = (\<lambda>pid w. (Inr 0, w))\<rparr>"

text \<open>
  Two worlds at time 0: one in which nothing runs, and one in which port 8000 is
  served by a process that the monitor has not spawned. The monitor of the default
  table starts with the controllers of \<open>ServiceManager_init\<close>.
\<close>

definition idle_world :: sim_world where
  "idle_world = \<lparr>sim_listening = [], sim_alive = [], sim_clock = 0\<rparr>"


definition default_manager :: ServiceManager where
  "default_manager = ServiceManager_init (get_default_services ''/app'' ''/web'')"







section \<open>Startup order\<close>

lemma collect_ready_filter:
  "set remaining \<subseteq> fst ` set sv \<Longrightarrow>
   collect_ready sv ordered remaining =
     Inr (filter (\<lambda>s. set (deps_of sv s) \<subseteq> set ordered) remaining)"
proof (induction remaining)
  case Nil
  show ?case by simp
next
  case (Cons s rest)
  from Cons.prems have "s \<in> fst ` set sv" by simp
  then obtain c where c: "map_of sv s = Some c"
    by (metis domD dom_map_of_conv_image_fst)
  from Cons have "collect_ready sv ordered rest =
     Inr (filter (\<lambda>s. set (deps_of sv s) \<subseteq> set ordered) rest)" by simp
  with c show ?case by (simp add: deps_of_def)
qed

lemma sort_eq_of_set_eq:
  fixes xs ys :: "'a::linorder list"
  assumes "distinct xs" "distinct ys" "set xs = set ys"
  shows "sort xs = sort ys"
  using assms by (metis sorted_list_of_set_sort_remdups distinct_remdups_id)

lemma select_ready_distinct:
  "distinct remaining \<Longrightarrow> distinct ready0 \<Longrightarrow> distinct (select_ready remaining ready0)"
  by (simp add: select_ready_def)

lemma startup_loop_total:
  "distinct remaining \<Longrightarrow> set remaining \<subseteq> fst ` set sv \<Longrightarrow> distinct ordered \<Longrightarrow>
   set ordered \<inter> set remaining = {} \<Longrightarrow>
   \<exists>order. startup_loop sv ordered remaining = Inr order \<and> distinct order \<and>
     set order = set ordered \<union> set remaining"
proof (induction sv ordered remaining rule: startup_loop.induct)
  case (1 sv ordered remaining)
  show ?case
  proof (cases "remaining = []")
    case True
    with 1 show ?thesis by (simp add: startup_loop.simps)
  next
    case False
    define ready0 where "ready0 = filter (\<lambda>s. set (deps_of sv s) \<subseteq> set ordered) remaining"
    define ready where "ready = select_ready remaining ready0"
    define rest where "rest = filter (\<lambda>s. s \<notin> set ready) remaining"
    have cr: "collect_ready sv ordered remaining = Inr ready0"
      using 1(3) by (simp add: collect_ready_filter ready0_def)
    have sub: "set ready \<subseteq> set remaining"
      by (simp add: ready_def ready0_def select_ready_set)
    have dr: "distinct ready"
      using 1(2) by (simp add: ready_def ready0_def select_ready_distinct)
    have step: "startup_loop sv ordered remaining = startup_loop sv (ordered @ ready) rest"
      using False cr by (subst startup_loop.simps) (simp add: ready_def rest_def Let_def)
    have "\<exists>order. startup_loop sv (ordered @ ready) rest = Inr order \<and> distinct order \<and>
        set order = set (ordered @ ready) \<union> set rest"
    proof (rule 1(1)[OF False cr ready_def, folded rest_def])
      show "distinct rest" using 1(2) by (simp add: rest_def)
      show "set rest \<subseteq> fst ` set sv" using 1(3) by (auto simp: rest_def)
      show "distinct (ordered @ ready)" using 1(4,5) dr sub by auto
      show "set (ordered @ ready) \<inter> set rest = {}" using 1(5) by (auto simp: rest_def)
    qed
    moreover have "set (ordered @ ready) \<union> set rest = set ordered \<union> set remaining"
      using sub by (auto simp: rest_def)
    ultimately show ?thesis using step by simp
  qed
qed


lemma startup_loop_iteration_order:
  "distinct r1 \<Longrightarrow> distinct r2 \<Longrightarrow> set r1 = set r2 \<Longrightarrow> set r1 \<subseteq> fst ` set sv \<Longrightarrow>
   startup_loop sv ordered r1 = startup_loop sv ordered r2"
proof (induction sv ordered r1 arbitrary: r2 rule: startup_loop.induct)
  case (1 sv ordered r1)
  show ?case
  proof (cases "r1 = []")
    case True
    with 1(4) have "r2 = []" by simp
    with True show ?thesis by simp
  next
    case False
    with 1(4) have ne2: "r2 \<noteq> []" by auto
    define P where "P = (\<lambda>s. set (deps_of sv s) \<subseteq> set ordered)"
    define ready where "ready = select_ready r1 (filter P r1)"
    have cr1: "collect_ready sv ordered r1 = Inr (filter P r1)"
      using 1(5) by (simp add: collect_ready_filter P_def)
    have cr2: "collect_ready sv ordered r2 = Inr (filter P r2)"
      using 1(4,5) by (simp add: collect_ready_filter P_def)
    have same: "select_ready r2 (filter P r2) = ready"
    proof -
      have e: "filter P r1 = [] \<longleftrightarrow> filter P r2 = []"
        using 1(4) by (auto simp: filter_empty_conv)
      have "sort (filter P r2) = sort (filter P r1)"
        using 1(2,3,4) by (intro sort_eq_of_set_eq) auto
      moreover have "sort r2 = sort r1"
        using 1(2,3,4) by (intro sort_eq_of_set_eq) auto
      ultimately show ?thesis using e by (auto simp: ready_def select_ready_def)
    qed
    have s1: "startup_loop sv ordered r1 =
        startup_loop sv (ordered @ ready) (filter (\<lambda>s. s \<notin> set ready) r1)"
      using False cr1 by (subst startup_loop.simps) (simp add: ready_def Let_def)
    have s2: "startup_loop sv ordered r2 =
        startup_loop sv (ordered @ ready) (filter (\<lambda>s. s \<notin> set ready) r2)"
      using ne2 cr2 same by (subst startup_loop.simps) (simp add: Let_def)
    have "startup_loop sv (ordered @ ready) (filter (\<lambda>s. s \<notin> set ready) r1) =
        startup_loop sv (ordered @ ready) (filter (\<lambda>s. s \<notin> set ready) r2)"
    proof (rule 1(1)[OF False cr1 ready_def])
      show "distinct (filter (\<lambda>s. s \<notin> set ready) r1)" using 1(2) by simp
      show "distinct (filter (\<lambda>s. s \<notin> set ready) r2)" using 1(3) by simp
      show "set (filter (\<lambda>s. s \<notin> set ready) r1) = set (filter (\<lambda>s. s \<notin> set ready) r2)"
        using 1(4) by auto
      show "set (filter (\<lambda>s. s \<notin> set ready) r1) \<subseteq> fst ` set sv" using 1(5) by auto
    qed
    with s1 s2 show ?thesis by simp
  qed
qed

lemma startup_loop_fallback:
  assumes "remaining \<noteq> []" and "set remaining \<subseteq> fst ` set sv"
    and "\<forall>s\<in>set remaining. \<not> set (deps_of sv s) \<subseteq> set ordered"
  shows "startup_loop sv ordered remaining = Inr (ordered @ sort remaining)"
proof -
  have cr: "collect_ready sv ordered remaining = Inr []"
    using assms(2,3) by (simp add: collect_ready_filter filter_empty_conv)
  have "startup_loop sv ordered remaining =
      startup_loop sv (ordered @ sort remaining)
        (filter (\<lambda>s. s \<notin> set (sort remaining)) remaining)"
    using assms(1) cr by (subst startup_loop.simps) (simp add: select_ready_def Let_def)
  also have "filter (\<lambda>s. s \<notin> set (sort remaining)) remaining = []"
    by (simp add: filter_empty_conv)
  finally show ?thesis by (simp add: startup_loop.simps)
qed


text \<open>
  Claim C4. For every service table, with or without circular or missing
  dependencies, \<open>get_startup_order\<close> returns (the loop is a total function and no
  lookup raises) a list that holds every configured service exactly once. The
  result does not depend on the order in which the set of remaining services is
  iterated. In a round where no remaining service has all its dependencies ordered,
  all remaining services are appended in lexicographic order and the loop ends.
\<close>

theorem get_startup_order_total:
  "(\<exists>order. get_startup_order sv = Inr order \<and> distinct order \<and>
       set order = set (get_all_services sv)) \<and>
   (\<forall>iteration. distinct iteration \<and> set iteration = set (get_all_services sv) \<longrightarrow>
       startup_loop sv [] iteration = get_startup_order sv) \<and>
   (\<forall>ordered remaining.
       remaining \<noteq> [] \<and> distinct remaining \<and> set remaining \<subseteq> set (get_all_services sv) \<and>
       (\<forall>s\<in>set remaining. \<not> set (deps_of sv s) \<subseteq> set ordered) \<longrightarrow>
       startup_loop sv ordered remaining = Inr (ordered @ sort remaining))"
proof (intro conjI allI impI)
  show "\<exists>order. get_startup_order sv = Inr order \<and> distinct order \<and>
       set order = set (get_all_services sv)"
    unfolding get_startup_order_def get_all_services_def
    using startup_loop_total[of "remdups (map fst sv)" sv "[]"] by simp
next
  fix iteration
  assume "distinct iteration \<and> set iteration = set (get_all_services sv)"
  then show "startup_loop sv [] iteration = get_startup_order sv"
    unfolding get_startup_order_def get_all_services_def
    by (intro startup_loop_iteration_order) auto
next
  fix ordered remaining
  assume "remaining \<noteq> [] \<and> distinct remaining \<and> set remaining \<subseteq> set (get_all_services sv) \<and>
       (\<forall>s\<in>set remaining. \<not> set (deps_of sv s) \<subseteq> set ordered)"
  then show "startup_loop sv ordered remaining = Inr (ordered @ sort remaining)"
    by (intro startup_loop_fallback) (auto simp: get_all_services_def)
qed

lemma sort_queue_worker: "sort [''worker'', ''queue''] = [''queue'', ''worker'']"
  by code_simp

theorem get_startup_order_total_witness:
  "get_startup_order cyclic_services = Inr [''queue'', ''worker''] \<and>
   startup_loop cyclic_services [] [''queue'', ''worker''] = Inr [''queue'', ''worker'']"
proof -
  have keys: "get_all_services cyclic_services = [''worker'', ''queue'']"
    by (simp add: cyclic_services_def service_entry_def get_all_services_def)
  have nr: "\<forall>s\<in>set [''worker'', ''queue'']. \<not> set (deps_of cyclic_services s) \<subseteq> set []"
    by (simp add: cyclic_services_def service_entry_def deps_of_def)
  note t = get_startup_order_total[of cyclic_services, unfolded keys]
  note t2 = t[THEN conjunct2, THEN conjunct1, rule_format]
  note t3 = t[THEN conjunct2, THEN conjunct2, rule_format]
  have a: "startup_loop cyclic_services [] [''worker'', ''queue''] =
      get_startup_order cyclic_services"
    by (rule t2) simp
  have b: "startup_loop cyclic_services [] [''queue'', ''worker''] =
      get_startup_order cyclic_services"
    by (rule t2) auto
  have "startup_loop cyclic_services [] [''worker'', ''queue''] =
      Inr ([] @ sort [''worker'', ''queue''])"
    by (rule t3) (use nr in simp)
  with a b show ?thesis by (simp add: sort_queue_worker)
qed


section \<open>Overall status\<close>

lemma count_running:
  "sum_list (map (\<lambda>h. (1::nat)) (filter P xs)) = length (filter P xs)"
  by (induction xs) auto

lemma filter_nonempty_iff: "filter P xs \<noteq> [] \<longleftrightarrow> (\<exists>x\<in>set xs. P x)"
  by (simp add: filter_empty_conv)

lemma length_filter_zero_iff: "length (filter P xs) = 0 \<longleftrightarrow> (\<forall>x\<in>set xs. \<not> P x)"
  by (simp add: filter_empty_conv)

lemma length_filter_less_iff: "length (filter P xs) < length xs \<longleftrightarrow> (\<exists>x\<in>set xs. \<not> P x)"
proof
  assume "length (filter P xs) < length xs"
  then have "filter P xs \<noteq> xs" by auto
  then show "\<exists>x\<in>set xs. \<not> P x" by (metis filter_True)
next
  assume "\<exists>x\<in>set xs. \<not> P x"
  then obtain x where "x \<in> set xs" "\<not> P x" by blast
  then show "length (filter P xs) < length xs" by (rule length_filter_less)
qed

text \<open>
  Claim C2. For every map of service health, dependency status and issue list the
  overall status follows a strict precedence, the first match winning: an issue of
  critical severity gives unhealthy; otherwise no running service gives unhealthy;
  otherwise a service that is not running gives degraded; otherwise an issue of
  warning severity gives degraded; otherwise the status is healthy.
\<close>

theorem overall_status_precedence:
  "determine_overall_status service_health dependency_status issues =
     (if (\<exists>i\<in>set issues. iss_severity i = CRITICAL) then UNHEALTHY
      else if (\<forall>item\<in>set service_health. sh_status (snd item) \<noteq> RUNNING) then UNHEALTHY
      else if (\<exists>item\<in>set service_health. sh_status (snd item) \<noteq> RUNNING) then DEGRADED
      else if (\<exists>i\<in>set issues. iss_severity i = WARNING) then DEGRADED
      else HEALTHY)"
proof -
  have z: "length (filter (\<lambda>h. sh_status h = RUNNING) (map snd service_health)) = 0 \<longleftrightarrow>
      (\<forall>item\<in>set service_health. sh_status (snd item) \<noteq> RUNNING)"
    unfolding length_filter_zero_iff by auto
  have l: "length (filter (\<lambda>h. sh_status h = RUNNING) (map snd service_health)) <
        length service_health \<longleftrightarrow>
      (\<exists>item\<in>set service_health. sh_status (snd item) \<noteq> RUNNING)"
    using length_filter_less_iff[of "\<lambda>h. sh_status h = RUNNING" "map snd service_health"]
    by auto
  show ?thesis
    unfolding determine_overall_status_def Let_def count_running filter_nonempty_iff
    using z l by simp
qed

theorem overall_status_precedence_witness:
  "determine_overall_status
     [health_entry ''backend'' RUNNING, health_entry ''frontend'' RUNNING]
     DependencyStatus_default [] = HEALTHY \<and>
   determine_overall_status
     [health_entry ''backend'' RUNNING, health_entry ''frontend'' STOPPED]
     DependencyStatus_default [] = DEGRADED \<and>
   determine_overall_status
     [health_entry ''backend'' STOPPED, health_entry ''frontend'' STOPPED]
     DependencyStatus_default [] = UNHEALTHY \<and>
   determine_overall_status
     [health_entry ''backend'' RUNNING, health_entry ''frontend'' RUNNING]
     DependencyStatus_default [issue_of CRITICAL] = UNHEALTHY \<and>
   determine_overall_status
     [health_entry ''backend'' RUNNING, health_entry ''frontend'' RUNNING]
     DependencyStatus_default [issue_of WARNING] = DEGRADED"
  by (simp add: overall_status_precedence health_entry_def issue_of_def)


section \<open>Credential check\<close>

text \<open>
  Both \<^verbatim>\<open>return\<close> statements of \<^verbatim>\<open>check_api_keys\<close> pass the keyword
  \<^verbatim>\<open>api_keys_ok\<close>, which is not a field of \<^verbatim>\<open>DependencyStatus\<close>: the constructor
  raises for every key table, and so does \<^verbatim>\<open>validate_all_dependencies\<close>, which calls
  the check without a handler.
\<close>

lemma check_api_keys_always_raises:
  "check_api_keys keys = Inl (unexpected_keyword ''api_keys_ok'')"
  by (simp add: check_api_keys_def DependencyStatus_init_def split: prod.splits)

lemma validate_all_dependencies_always_raises:
  "validate_all_dependencies python_status node_status keys =
     Inl (unexpected_keyword ''api_keys_ok'')"
  by (simp add: validate_all_dependencies_def check_api_keys_always_raises)

text \<open>
  A monitor wired to this validator therefore never gets past the validation: the
  exception leaves \<open>start_services\<close> before any service is started, and it
  leaves a sweep after the health of the services has been gathered. The properties
  of \<open>start_services\<close> and of the sweep below are stated for every answer a
  validator can give.
\<close>

lemma start_services_shipped_validator:
  "start_services sv ops (validate_all_dependencies python_status node_status keys) s =
     (Inl (unexpected_keyword ''api_keys_ok''), [], s)"
  by (simp add: start_services_def validate_all_dependencies_always_raises)

text \<open>
  Claim C7 says that the credential check returns a status, with credentials
  configured and nothing missing, as soon as one of the providers openai, mistral,
  gemini and anthropic has a valid key, and never raises. With a valid openai key
  stored, \<open>check_api_keys\<close> raises \<^verbatim>\<open>TypeError\<close> instead.
\<close>

theorem check_api_keys_raises_with_valid_key:
  "check_api_keys [valid_key OPENAI] =
     Inl (TypeError (''DependencyStatus.__init__() got an unexpected keyword argument '' @
       [CHR 0x27] @ ''api_keys_ok'' @ [CHR 0x27]))"
  by (simp add: check_api_keys_def DependencyStatus_init_def unexpected_keyword_def
      valid_key_def get_key_info_def)


section \<open>Cached system status\<close>

text \<open>
  Claim C6 says that \<open>get_system_status\<close> returns the cached snapshot when its age is
  at most 60 seconds and a fresh one otherwise, so that the snapshot returned is never
  older than 60 seconds. The staleness test reads \<^verbatim>\<open>.seconds\<close>, the seconds
  component of the age, where the uptime two lines below reads
  \<^verbatim>\<open>.total_seconds()\<close>. A snapshot taken one day and ten seconds ago (86410 seconds)
  has a seconds component of 10 and is returned from the cache, whatever a sweep
  would observe.
\<close>

theorem get_system_status_day_old_cache:
  "get_system_status cached_monitor 86410000000 sw now2 =
     (Inr (system_status_of cached_monitor empty_snapshot now2), cached_monitor) \<and>
   sys_health (system_status_of cached_monitor empty_snapshot now2) = empty_snapshot \<and>
   total_seconds (86410000000 - 0) = 86410 \<and>
   timedelta_seconds (86410000000 - 0) = 10"
  by (simp add: get_system_status_def cached_monitor_def timedelta_seconds_def
      total_seconds_def system_status_of_def)

text \<open>What the staleness test computes when a snapshot is cached.\<close>

lemma get_system_status_cached_iff:
  assumes "hm_cached_status hm = Some cached" and "hm_last_health_check hm = Some t"
  shows "get_system_status hm now1 sw now2 =
     (if ((now1 - t) div 1000000) mod 86400 \<le> 60
      then (Inr (system_status_of hm cached now2), hm)
      else fresh_status hm sw now2)"
  using assms by (simp add: get_system_status_def timedelta_seconds_def)


section \<open>Unregistered service names\<close>

text \<open>For a name without a controller, starting and stopping answer a failure result.\<close>

lemma start_service_unknown:
  "map_of (mgr_controllers mgr) service_name = None \<Longrightarrow>
   start_service os mgr service_name w = (Inr (unknown_service_result service_name), mgr, w) \<and>
   stop_service os mgr service_name w = (Inr (unknown_service_result service_name), mgr, w)"
  by (simp add: start_service_def stop_service_def)

text \<open>
  Claim C5 says that for a name that is not registered \<open>start_service\<close> and
  \<open>stop_service\<close> return a failure naming the service, and that
  \<open>check_service_health\<close> returns a health entry of status error with an
  unknown-service message, none of them raising. The branch of
  \<open>check_service_health\<close> for an unregistered name first looks the name up with
  \<open>get_service_config\<close>, which raises \<^verbatim>\<open>ValueError\<close> for a name that is not
  configured. The manager built from the default table registers backend and
  frontend; for the name database the check raises.
\<close>

theorem check_service_health_unregistered_raises:
  "map_of (mgr_controllers (ServiceManager_init (get_default_services base_dir frontend_dir)))
     ''database'' = None \<and>
   check_service_health (ServiceManager_init (get_default_services base_dir frontend_dir))
     ''database'' obs = Inl (ValueError ''Unknown service: database'')"
  by (simp add: check_service_health_def ServiceManager_init_def get_default_services_def
      get_service_config_def new_controller_def controller_class_of_def)


section \<open>Health of one service\<close>

text \<open>
  Claim C9. For every service that has a controller (and a configuration, as every
  service registered by \<open>ServiceManager_init\<close> has), \<open>check_service_health\<close> returns
  a health entry whose status is running exactly when the port probe and the
  readiness probe succeed. The status is a function of the two probes alone: the
  controller and its process handle do not enter it, so a service started from
  outside, whose controller owns no process, is reported as running.
\<close>

theorem check_service_health_running:
  assumes "map_of (mgr_controllers mgr) service_name = Some controller"
    and "map_of (mgr_config mgr) service_name = Some config"
  shows "\<exists>health. check_service_health mgr service_name obs = Inr health \<and>
     (sh_status health = RUNNING \<longleftrightarrow> obs_port_open obs \<and> obs_probe obs = Inr True) \<and>
     sh_status health =
       (if obs_port_open obs then (if obs_probe obs = Inr True then RUNNING else ERROR)
        else STOPPED)"
proof (cases "obs_port_open obs")
  case False
  with assms show ?thesis
    by (simp add: check_service_health_def get_service_config_def Let_def)
next
  case True
  show ?thesis
  proof (cases "obs_probe obs")
    case (Inl e)
    with True assms show ?thesis
      by (simp add: check_service_health_def get_service_config_def Let_def)
  next
    case (Inr healthy)
    with True assms show ?thesis
      by (cases healthy) (simp_all add: check_service_health_def get_service_config_def Let_def)
  qed
qed

theorem check_service_health_running_witness:
  "\<exists>controller health.
     map_of (mgr_controllers (ServiceManager_init (get_default_services ''/app'' ''/web'')))
       ''backend'' = Some controller \<and>
     ctl_process controller = None \<and>
     \<not> is_running controller (obs_poll (probe_obs True (Inr True))) \<and>
     check_service_health (ServiceManager_init (get_default_services ''/app'' ''/web''))
       ''backend'' (probe_obs True (Inr True)) = Inr health \<and>
     sh_status health = RUNNING"
proof -
  let ?mgr = "ServiceManager_init (get_default_services ''/app'' ''/web'')"
  let ?cfg = "snd (hd (get_default_services ''/app'' ''/web''))"
  let ?ctl = "new_controller BackendServiceController_class ?cfg"
  have c: "map_of (mgr_controllers ?mgr) ''backend'' = Some ?ctl"
    by (simp add: ServiceManager_init_def get_default_services_def controller_class_of_def)
  have s: "map_of (mgr_config ?mgr) ''backend'' = Some ?cfg"
    by (simp add: ServiceManager_init_def get_default_services_def)
  have n: "ctl_process ?ctl = None" "\<not> is_running ?ctl (obs_poll (probe_obs True (Inr True)))"
    by (simp_all add: new_controller_def is_running_def)
  from check_service_health_running[OF c s, of "probe_obs True (Inr True)"]
  obtain health where
    "check_service_health ?mgr ''backend'' (probe_obs True (Inr True)) = Inr health"
    "sh_status health = RUNNING"
    by (auto simp: probe_obs_def)
  with c n show ?thesis by blast
qed


section \<open>Health sweep\<close>





section \<open>Coordinated startup\<close>

lemma stop_loop_spec: "stop_loop ops names s = (map StopCall names, run_stops ops names s)"
  by (induction names arbitrary: s) (auto split: prod.splits)

lemma run_starts_append:
  "run_starts ops (xs @ ys) s = run_starts ops ys (run_starts ops xs s)"
  by (induction xs arbitrary: s) auto

lemma start_ok_answer:
  "start_ok ops service_name s \<longleftrightarrow>
     (\<exists>result s'. op_start ops service_name s = (Inr result, s') \<and> sr_success result)"
  by (cases "op_start ops service_name s") (auto simp: start_ok_def split: sum.splits)


lemma start_loop_failure_now:
  assumes "\<not> start_ok ops failed s"
  shows "start_loop ops (failed # post) started s =
     (started, [failed], StartCall failed # map StopCall (rev started),
      run_stops ops (rev started) (snd (op_start ops failed s)))"
proof (cases "op_start ops failed s")
  case (Pair answer s')
  show ?thesis
  proof (cases answer)
    case (Inl e)
    with Pair show ?thesis by (simp add: stop_started_services_def stop_loop_spec)
  next
    case (Inr result)
    with Pair assms have "\<not> sr_success result" by (simp add: start_ok_def)
    with Pair Inr show ?thesis by (simp add: stop_started_services_def stop_loop_spec)
  qed
qed

lemma start_loop_first_failure:
  "starts_succeed ops pre s \<Longrightarrow> \<not> start_ok ops failed (run_starts ops pre s) \<Longrightarrow>
   start_loop ops (pre @ failed # post) started s =
     (started @ pre, [failed],
      map StartCall (pre @ [failed]) @ map StopCall (rev (started @ pre)),
      run_stops ops (rev (started @ pre)) (run_starts ops (pre @ [failed]) s))"
proof (induction pre arbitrary: started s)
  case Nil
  then show ?case by (simp add: start_loop_failure_now del: start_loop.simps)
next
  case (Cons n pre)
  from Cons.prems obtain result s' where r: "op_start ops n s = (Inr result, s')" "sr_success result"
    by (auto simp: start_ok_answer)
  from Cons.prems r have ok: "starts_succeed ops pre s'"
    and nf: "\<not> start_ok ops failed (run_starts ops pre s')" by simp_all
  from Cons.IH[OF ok nf, of "started @ [n]"] r show ?case by simp
qed

lemma start_loop_shape:
  "\<exists>pre failed rest journal s'.
     start_loop ops names started s = (started @ pre, failed, journal, s') \<and>
     names = pre @ failed @ rest \<and> length failed \<le> 1"
proof (induction names arbitrary: started s)
  case Nil
  then show ?case by simp
next
  case (Cons n names)
  show ?case
  proof (cases "start_ok ops n s")
    case True
    then obtain result s1 where r: "op_start ops n s = (Inr result, s1)" "sr_success result"
      by (auto simp: start_ok_answer)
    from Cons.IH[of "started @ [n]" s1] obtain pre failed rest journal s' where ih:
      "start_loop ops names (started @ [n]) s1 = ((started @ [n]) @ pre, failed, journal, s')"
      "names = pre @ failed @ rest" "length failed \<le> 1"
      by blast
    from r ih have "start_loop ops (n # names) started s =
        (started @ (n # pre), failed, StartCall n # journal, s') \<and>
        n # names = (n # pre) @ failed @ rest \<and> length failed \<le> 1"
      by simp
    then show ?thesis by blast
  next
    case False
    from start_loop_failure_now[OF False, of names started]
    have "start_loop ops (n # names) started s =
        (started @ [], [n], StartCall n # map StopCall (rev started),
         run_stops ops (rev started) (snd (op_start ops n s))) \<and>
        n # names = [] @ [n] @ names \<and> length [n] \<le> 1"
      by (simp del: start_loop.simps)
    then show ?thesis by blast
  qed
qed

lemma get_startup_order_returns:
  "\<exists>startup_order. get_startup_order sv = Inr startup_order \<and> distinct startup_order \<and>
     set startup_order = fst ` set sv"
  unfolding get_startup_order_def
  using startup_loop_total[of "remdups (map fst sv)" sv "[]"] by simp

lemma startup_loop_two:
  assumes "a \<noteq> b" and "map_of sv a = Some ca" and "map_of sv b = Some cb"
    and "cfg_dependencies ca = []" and "cfg_dependencies cb = [a]"
    and "remaining = [a, b] \<or> remaining = [b, a]"
  shows "startup_loop sv [] remaining = Inr [a, b]"
proof -
  have r1: "collect_ready sv [] remaining = Inr [a]"
    using assms by auto
  have s1: "select_ready remaining [a] = [a]" by (simp add: select_ready_def)
  have f1: "filter (\<lambda>s. s \<notin> set [a]) remaining = [b]" using assms(1,6) by auto
  have r2: "collect_ready sv ([] @ [a]) [b] = Inr [b]" using assms by simp
  have s2: "select_ready [b] [b] = [b]" by (simp add: select_ready_def)
  have ne: "remaining \<noteq> []" using assms(6) by auto
  have "startup_loop sv [] remaining = startup_loop sv ([] @ [a]) [b]"
    using ne r1 s1 f1 by (subst startup_loop.simps) (simp add: Let_def)
  also have "\<dots> = startup_loop sv (([] @ [a]) @ [b]) []"
    using r2 s2 by (subst startup_loop.simps) (simp add: Let_def)
  also have "\<dots> = Inr [a, b]" by (simp add: startup_loop.simps)
  finally show ?thesis .
qed

lemma get_startup_order_two:
  assumes "a \<noteq> b" and "cfg_dependencies ca = []" and "cfg_dependencies cb = [a]"
    and "sv = [(a, ca), (b, cb)] \<or> sv = [(b, cb), (a, ca)]"
  shows "get_startup_order sv = Inr [a, b]"
proof -
  have m: "map_of sv a = Some ca" "map_of sv b = Some cb"
    using assms(1,4) by auto
  have r: "remdups (map fst sv) = [a, b] \<or> remdups (map fst sv) = [b, a]"
    using assms(1,4) by auto
  show ?thesis unfolding get_startup_order_def
    by (rule startup_loop_two[OF assms(1) m assms(2,3) r])
qed

lemma default_startup_order:
  "get_startup_order (get_default_services base_dir frontend_dir) = Inr [''backend'', ''frontend'']"
  by (rule get_startup_order_two[where ca = "snd (hd (get_default_services base_dir frontend_dir))"
        and cb = "snd (hd (tl (get_default_services base_dir frontend_dir)))"])
    (simp_all add: get_default_services_def)


lemma start_services_first_failure:
  assumes "vr_success validation_result" and "get_startup_order sv = Inr (started @ failed # rest)"
    and "starts_succeed ops started s" and "\<not> start_ok ops failed (run_starts ops started s)"
  shows "start_services sv ops (Inr validation_result) s =
     (Inr (failed_result started failed),
      map StartCall started @ [StartCall failed] @ map StopCall (rev started),
      run_stops ops (rev started) (run_starts ops (started @ [failed]) s))"
  using assms by (simp add: start_services_def start_loop_first_failure failed_result_def)




section \<open>The simulated operating system\<close>

text \<open>
  What the controller methods do in the simulated world: the start of a controller
  whose port is served, whose command is missing, or whose command is installed,
  and the stop of a controller without and with a live process.
\<close>

lemma sim_is_running_idle:
  "ctl_class ctl \<noteq> DatabaseController_class \<Longrightarrow> ctl_process ctl = None \<Longrightarrow>
   is_running_in (sim_os installed) ctl w = (False, w)"
  by (simp add: is_running_in_def)

lemma sim_stop_idle:
  "ctl_class ctl \<noteq> DatabaseController_class \<Longrightarrow> ctl_process ctl = None \<Longrightarrow>
   controller_stop (sim_os installed) ctl w =
     (startup_result True (''Service '' @ cfg_name (ctl_config ctl) @ '' is not running'') [] [],
      ctl, w)"
  by (simp add: controller_stop_def ServiceController_stop_def sim_is_running_idle)



lemma sim_attempts_missing:
  "ctl_class ctl \<noteq> DatabaseController_class \<Longrightarrow> ctl_process ctl = None \<Longrightarrow>
   cfg_startup_command (ctl_config ctl) \<notin> set installed \<Longrightarrow>
   start_attempts (sim_os installed) (Suc n) ctl w =
     (start_failed ctl (raised_message ctl (OtherException (''[Errno 2] No such file or directory: '' @
        py_repr (cfg_startup_command (ctl_config ctl))))),
      ctl, w\<lparr>sim_clock := sim_clock w + 5000000 * int n\<rparr>)"
proof (induction n arbitrary: w)
  case 0
  then have p: "os_popen (sim_os installed) (ctl_config ctl) w =
      (Inl (OtherException (''[Errno 2] No such file or directory: '' @
        py_repr (cfg_startup_command (ctl_config ctl)))), w)"
    by (simp add: sim_os_def)
  from 0 have s: "ServiceController_stop (sim_os installed) ctl w =
      (startup_result True (''Service '' @ cfg_name (ctl_config ctl) @ '' is not running'') [] [], ctl, w)"
    using sim_stop_idle[of ctl installed w] by (simp add: controller_stop_def)
  show ?case by (simp add: p s)
next
  case (Suc n)
  then have p: "os_popen (sim_os installed) (ctl_config ctl) w =
      (Inl (OtherException (''[Errno 2] No such file or directory: '' @
        py_repr (cfg_startup_command (ctl_config ctl)))), w)"
    by (simp add: sim_os_def)
  from Suc.prems have s: "ServiceController_stop (sim_os installed) ctl w =
      (startup_result True (''Service '' @ cfg_name (ctl_config ctl) @ '' is not running'') [] [], ctl, w)"
    using sim_stop_idle[of ctl installed w] by (simp add: controller_stop_def)
  have sl: "os_sleep (sim_os installed) w = w\<lparr>sim_clock := sim_clock w + 5000000\<rparr>"
    by (simp add: sim_os_def)
  have "start_attempts (sim_os installed) (Suc (Suc n)) ctl w =
      start_attempts (sim_os installed) (Suc n) ctl (w\<lparr>sim_clock := sim_clock w + 5000000\<rparr>)"
    by (subst start_attempts.simps) (simp add: p s sl)
  also have "\<dots> = (start_failed ctl (raised_message ctl (OtherException (''[Errno 2] No such file or directory: '' @
        py_repr (cfg_startup_command (ctl_config ctl))))),
      ctl, (w\<lparr>sim_clock := sim_clock w + 5000000\<rparr>)\<lparr>sim_clock := sim_clock (w\<lparr>sim_clock := sim_clock w + 5000000\<rparr>) + 5000000 * int n\<rparr>)"
    by (rule Suc.IH[OF Suc.prems])
  finally show ?case by (simp add: algebra_simps)
qed

lemma sim_start_attempts:
  assumes "ctl_class ctl \<noteq> DatabaseController_class" and "ctl_process ctl = None"
    and "cfg_port (ctl_config ctl) \<notin> set (sim_listening w)" and "ctl_max_retries ctl = 3"
  shows "controller_start (sim_os installed) ctl w =
     start_attempts (sim_os installed) (Suc 2) ctl w"
proof -
  have po: "os_port_open (sim_os installed) (cfg_port (ctl_config ctl)) w = (False, w)"
    using assms(3) by (simp add: sim_os_def)
  have "nat (ctl_max_retries ctl) = Suc 2" using assms(4) by simp
  with assms(1,2) po show ?thesis
    by (simp add: controller_start_def ServiceController_start_def sim_is_running_idle
        del: start_attempts.simps)
qed

lemma sim_start_missing:
  assumes "ctl_class ctl \<noteq> DatabaseController_class" and "ctl_process ctl = None"
    and "cfg_startup_command (ctl_config ctl) \<notin> set installed"
    and "cfg_port (ctl_config ctl) \<notin> set (sim_listening w)" and "ctl_max_retries ctl = 3"
  shows "controller_start (sim_os installed) ctl w =
     (start_failed ctl (raised_message ctl (OtherException (''[Errno 2] No such file or directory: '' @
        py_repr (cfg_startup_command (ctl_config ctl))))),
      ctl, w\<lparr>sim_clock := sim_clock w + 10000000\<rparr>)"
  using sim_attempts_missing[OF assms(1,2,3), of 2 w] sim_start_attempts[OF assms(1,2,4,5), of installed]
  by simp

lemma sim_start_spawn:
  assumes "ctl_class ctl \<noteq> DatabaseController_class" and "ctl_process ctl = None"
    and "cfg_startup_command (ctl_config ctl) \<in> set installed"
    and "cfg_port (ctl_config ctl) \<notin> set (sim_listening w)" and "ctl_max_retries ctl = 3"
  shows "controller_start (sim_os installed) ctl w =
     (startup_result True (''Service '' @ cfg_name (ctl_config ctl) @ '' started successfully'')
        [] [cfg_name (ctl_config ctl)],
      ctl\<lparr>ctl_process := Some (cfg_port (ctl_config ctl)), ctl_start_time := Some (sim_clock w),
          ctl_retry_count := 0\<rparr>,
      w\<lparr>sim_alive := cfg_port (ctl_config ctl) # sim_alive w,
        sim_listening := cfg_port (ctl_config ctl) # sim_listening w\<rparr>)"
proof -
  let ?w = "w\<lparr>sim_alive := cfg_port (ctl_config ctl) # sim_alive w,
        sim_listening := cfg_port (ctl_config ctl) # sim_listening w\<rparr>"
  let ?ctl = "ctl\<lparr>ctl_process := Some (cfg_port (ctl_config ctl)),
        ctl_start_time := Some (sim_clock w)\<rparr>"
  have p: "os_popen (sim_os installed) (ctl_config ctl) w = (Inr (cfg_port (ctl_config ctl)), ?w)"
    using assms(3) by (simp add: sim_os_def)
  have n: "os_now (sim_os installed) ?w = (sim_clock w, ?w)" by (simp add: sim_os_def)
  have r: "os_wait_for_ready (sim_os installed) ?ctl ?w = (Inr True, ?w)"
    by (simp add: sim_os_def)
  have "start_attempts (sim_os installed) (Suc 2) ctl w =
      (startup_result True (''Service '' @ cfg_name (ctl_config ctl) @ '' started successfully'')
        [] [cfg_name (ctl_config ctl)], ?ctl\<lparr>ctl_retry_count := 0\<rparr>, ?w)"
    by (subst start_attempts.simps) (simp add: p n r)
  with sim_start_attempts[OF assms(1,2,4,5), of installed] show ?thesis by simp
qed


text \<open>The same steps, seen from the service manager.\<close>

lemma op_start_at:
  "map_of (mgr_controllers mgr) service_name = Some ctl \<Longrightarrow>
   controller_start os ctl w = (result, ctl', w') \<Longrightarrow>
   op_start (manager_ops_of os) service_name (mgr, w) =
     (Inr result, mgr\<lparr>mgr_controllers := AList.update service_name ctl' (mgr_controllers mgr)\<rparr>, w')"
  by (simp add: manager_ops_of_def start_service_def)


lemma manager_unchanged:
  "map_of (mgr_controllers mgr) service_name = Some ctl \<Longrightarrow>
   mgr\<lparr>mgr_controllers := AList.update service_name ctl (mgr_controllers mgr)\<rparr> = mgr"
  by (simp add: update_triv)


lemma sim_manager_start_missing:
  assumes "map_of (mgr_controllers mgr) service_name = Some ctl"
    and "ctl_class ctl \<noteq> DatabaseController_class" and "ctl_process ctl = None"
    and "cfg_startup_command (ctl_config ctl) \<notin> set installed"
    and "cfg_port (ctl_config ctl) \<notin> set (sim_listening w)" and "ctl_max_retries ctl = 3"
  shows "\<not> start_ok (manager_ops_of (sim_os installed)) service_name (mgr, w)"
    and "snd (op_start (manager_ops_of (sim_os installed)) service_name (mgr, w)) =
       (mgr, w\<lparr>sim_clock := sim_clock w + 10000000\<rparr>)"
  using op_start_at[OF assms(1) sim_start_missing[OF assms(2,3,4,5,6)]]
  by (simp_all add: start_ok_def start_failed_def startup_result_def manager_unchanged[OF assms(1)])

lemma sim_manager_start_spawn:
  assumes "map_of (mgr_controllers mgr) service_name = Some ctl"
    and "ctl_class ctl \<noteq> DatabaseController_class" and "ctl_process ctl = None"
    and "cfg_startup_command (ctl_config ctl) \<in> set installed"
    and "cfg_port (ctl_config ctl) \<notin> set (sim_listening w)" and "ctl_max_retries ctl = 3"
  shows "start_ok (manager_ops_of (sim_os installed)) service_name (mgr, w)"
    and "snd (op_start (manager_ops_of (sim_os installed)) service_name (mgr, w)) =
       (mgr\<lparr>mgr_controllers := AList.update service_name
          (ctl\<lparr>ctl_process := Some (cfg_port (ctl_config ctl)),
               ctl_start_time := Some (sim_clock w), ctl_retry_count := 0\<rparr>)
          (mgr_controllers mgr)\<rparr>,
        w\<lparr>sim_alive := cfg_port (ctl_config ctl) # sim_alive w,
          sim_listening := cfg_port (ctl_config ctl) # sim_listening w\<rparr>)"
  using op_start_at[OF assms(1) sim_start_spawn[OF assms(2,3,4,5,6)]]
  by (simp_all add: start_ok_def startup_result_def)



text \<open>The controllers of the default table.\<close>

lemma default_manager_controllers:
  "mgr_controllers default_manager =
     [(''backend'', new_controller BackendServiceController_class
         (snd (hd (get_default_services ''/app'' ''/web'')))),
      (''frontend'', new_controller FrontendServiceController_class
         (snd (hd (tl (get_default_services ''/app'' ''/web'')))))]"
  by (simp add: default_manager_def ServiceManager_init_def get_default_services_def
      controller_class_of_def)

lemma new_controller_fields:
  "ctl_class (new_controller cls config) = cls" "ctl_config (new_controller cls config) = config"
  "ctl_process (new_controller cls config) = None"
  "ctl_start_time (new_controller cls config) = None"
  "ctl_retry_count (new_controller cls config) = 0"
  "ctl_max_retries (new_controller cls config) = 3"
  by (simp_all add: new_controller_def)

lemma default_configs:
  "cfg_name (snd (hd (get_default_services ''/app'' ''/web''))) = ''backend''"
  "cfg_port (snd (hd (get_default_services ''/app'' ''/web''))) = 8000"
  "cfg_startup_command (snd (hd (get_default_services ''/app'' ''/web''))) = ''uvicorn''"
  "cfg_name (snd (hd (tl (get_default_services ''/app'' ''/web'')))) = ''frontend''"
  "cfg_port (snd (hd (tl (get_default_services ''/app'' ''/web'')))) = 5173"
  "cfg_startup_command (snd (hd (tl (get_default_services ''/app'' ''/web'')))) = ''npm''"
  by (simp_all add: get_default_services_def)

lemma default_backend:
  "map_of (mgr_controllers default_manager) ''backend'' =
     Some (new_controller BackendServiceController_class
       (snd (hd (get_default_services ''/app'' ''/web''))))"
  by (simp add: default_manager_controllers)

lemma default_frontend:
  "map_of (mgr_controllers default_manager) ''frontend'' =
     Some (new_controller FrontendServiceController_class
       (snd (hd (tl (get_default_services ''/app'' ''/web'')))))"
  by (simp add: default_manager_controllers)

text \<open>
  From the idle world, with \<^verbatim>\<open>uvicorn\<close> installed and \<^verbatim>\<open>npm\<close> missing, the start of
  backend succeeds and the start of frontend fails.
\<close>

lemma idle_first_failure:
  "starts_succeed (manager_ops_of (sim_os [''uvicorn''])) [''backend'']
     (default_manager, idle_world) \<and>
   \<not> start_ok (manager_ops_of (sim_os [''uvicorn''])) ''frontend''
     (run_starts (manager_ops_of (sim_os [''uvicorn''])) [''backend'']
        (default_manager, idle_world))"
proof -
  let ?sv = "get_default_services ''/app'' ''/web''"
  let ?ops = "manager_ops_of (sim_os [''uvicorn''])"
  let ?b = "new_controller BackendServiceController_class (snd (hd ?sv))"
  let ?f = "new_controller FrontendServiceController_class (snd (hd (tl ?sv)))"
  let ?b' = "?b\<lparr>ctl_process := Some (cfg_port (ctl_config ?b)),
      ctl_start_time := Some (sim_clock idle_world), ctl_retry_count := 0\<rparr>"
  let ?up = "default_manager\<lparr>mgr_controllers :=
      AList.update ''backend'' ?b' (mgr_controllers default_manager)\<rparr>"
  let ?w1 = "idle_world\<lparr>sim_alive := cfg_port (ctl_config ?b) # sim_alive idle_world,
      sim_listening := cfg_port (ctl_config ?b) # sim_listening idle_world\<rparr>"
  have up_frontend: "map_of (mgr_controllers ?up) ''frontend'' = Some ?f"
    by (simp add: update_conv' default_frontend)
  have b: "start_ok ?ops ''backend'' (default_manager, idle_world)"
    "snd (op_start ?ops ''backend'' (default_manager, idle_world)) = (?up, ?w1)"
    by (rule sim_manager_start_spawn[OF default_backend];
        simp add: new_controller_fields default_configs idle_world_def)+
  have f: "\<not> start_ok ?ops ''frontend'' (?up, ?w1)"
    by (rule sim_manager_start_missing[OF up_frontend];
        simp add: new_controller_fields default_configs idle_world_def)+
  from b f show ?thesis by simp
qed






text \<open>
  Claim C10. When the dependency validation succeeds, the result of
  \<open>start_services\<close> is such that the started services followed by the failed ones
  are a prefix of the startup order, the two lists have no name in common, at most
  one service is listed as failed, and the success flag is set exactly when no
  service is listed as failed.
\<close>

theorem start_services_result_shape:
  assumes "vr_success validation_result"
  shows "\<exists>startup_order result journal s' rest.
     get_startup_order sv = Inr startup_order \<and>
     start_services sv ops (Inr validation_result) s = (Inr result, journal, s') \<and>
     startup_order = sr_started_services result @ sr_failed_services result @ rest \<and>
     set (sr_started_services result) \<inter> set (sr_failed_services result) = {} \<and>
     length (sr_failed_services result) \<le> 1 \<and>
     (sr_success result \<longleftrightarrow> sr_failed_services result = [])"
proof -
  from get_startup_order_returns obtain startup_order where
    order: "get_startup_order sv = Inr startup_order" and d: "distinct startup_order" by blast
  from start_loop_shape[of ops startup_order "[]" s] obtain pre failed rest journal s' where
    loop: "start_loop ops startup_order [] s = (pre, failed, journal, s')"
    and split: "startup_order = pre @ failed @ rest" and one: "length failed \<le> 1"
    by auto
  define result where "result =
    \<lparr>sr_success = (length failed = 0),
     sr_message = (if length failed = 0 then ''All services started successfully''
                   else ''Failed to start: '' @ join '', '' failed),
     sr_failed_services = failed, sr_started_services = pre\<rparr>"
  have run: "start_services sv ops (Inr validation_result) s = (Inr result, journal, s')"
    using assms order loop by (simp add: start_services_def result_def)
  from d split have "distinct (pre @ failed @ rest)" by simp
  then have disjoint: "set pre \<inter> set failed = {}" by auto
  have fields: "sr_started_services result = pre" "sr_failed_services result = failed"
    by (simp_all add: result_def)
  have prefix: "startup_order = sr_started_services result @ sr_failed_services result @ rest"
    unfolding fields by (rule split)
  have apart: "set (sr_started_services result) \<inter> set (sr_failed_services result) = {}"
    unfolding fields by (rule disjoint)
  have most: "length (sr_failed_services result) \<le> 1"
    unfolding fields by (rule one)
  have flag: "sr_success result \<longleftrightarrow> sr_failed_services result = []"
    by (simp add: result_def)
  show ?thesis
    by (intro exI[of _ startup_order] exI[of _ result] exI[of _ journal] exI[of _ s']
        exI[of _ rest] conjI order run prefix apart most flag)
qed

theorem start_services_result_shape_witness:
  "\<exists>result journal s'.
     start_services (get_default_services ''/app'' ''/web'')
       (manager_ops_of (sim_os [''uvicorn''])) (Inr ok_validation)
       (default_manager, idle_world) = (Inr result, journal, s') \<and>
     sr_started_services result = [''backend''] \<and>
     sr_failed_services result = [''frontend''] \<and>
     [''backend'', ''frontend''] = sr_started_services result @ sr_failed_services result @ [] \<and>
     set (sr_started_services result) \<inter> set (sr_failed_services result) = {} \<and>
     length (sr_failed_services result) \<le> 1 \<and>
     \<not> sr_success result"
proof -
  let ?sv = "get_default_services ''/app'' ''/web''"
  let ?ops = "manager_ops_of (sim_os [''uvicorn''])"
  have v: "vr_success ok_validation" by (simp add: ok_validation_def)
  note order = default_startup_order[of "''/app''" "''/web''"]
  from start_services_result_shape[OF v, of ?sv ?ops "(default_manager, idle_world)"] order
  obtain result journal s' rest where r:
    "start_services ?sv ?ops (Inr ok_validation) (default_manager, idle_world) =
       (Inr result, journal, s')"
    "[''backend'', ''frontend''] = sr_started_services result @ sr_failed_services result @ rest"
    "set (sr_started_services result) \<inter> set (sr_failed_services result) = {}"
    "length (sr_failed_services result) \<le> 1"
    "sr_success result \<longleftrightarrow> sr_failed_services result = []"
    by auto
  have o: "get_startup_order ?sv = Inr ([''backend''] @ ''frontend'' # [])"
    using order by simp
  from start_services_first_failure[OF v o idle_first_failure[THEN conjunct1]
      idle_first_failure[THEN conjunct2]] r(1)
  have "result = failed_result [''backend''] ''frontend''" by simp
  then have "sr_started_services result = [''backend'']" "sr_failed_services result = [''frontend'']"
    "\<not> sr_success result"
    by (simp_all add: failed_result_def)
  with r show ?thesis by auto
qed

section \<open>Startup order of an acyclic table\<close>

























end
